theory Spec2Isabelle
  imports Complex_Main "HOL-Library.AList"
begin

section \<open>Python values, types and exceptions\<close>

text \<open>
  The values that reach the parameter classes: \<open>None\<close>, booleans, integers (unbounded),
  floats (only ever stored and compared, never computed with), strings, lists, tuples, and
  the two collaborator objects \<open>PhotonBeamParameters\<close> and \<open>DetectorGeometry\<close>, which
  the parameter classes treat as opaque (a handle stands for the object's identity).
\<close>

datatype pyval =
    PNone
  | PBool bool
  | PInt int
  | PFloat real
  | PStr string
  | PList "pyval list"
  | PTuple "pyval list"
  | PBeamObj nat
  | PGeomObj nat

datatype pytype =
    T_bool | T_int | T_str | T_list | T_tuple
  | T_PhotonBeamParameters | T_DetectorGeometry

text \<open>Python's \<open>isinstance\<close>; \<open>bool\<close> is a subclass of \<open>int\<close>.\<close>

fun isinstance :: "pyval \<Rightarrow> pytype \<Rightarrow> bool" where
  "isinstance (PBool b) T_bool = True"
| "isinstance (PBool b) T_int = True"
| "isinstance (PInt i) T_int = True"
| "isinstance (PStr s) T_str = True"
| "isinstance (PList xs) T_list = True"
| "isinstance (PTuple xs) T_tuple = True"
| "isinstance (PBeamObj h) T_PhotonBeamParameters = True"
| "isinstance (PGeomObj h) T_DetectorGeometry = True"
| "isinstance v T = False"

datatype pyerror =
    TypeMismatch "pytype list" pyval
  | TypeError string
  | ValueError string
  | AttributeError string
  | KeyError string
  | IOError string

text \<open>
  Modelled from the spec: \<open>SimEx.Utilities.EntityChecks.checkAndSetInstance\<close> is imported
  by the parameter class but its body is not part of the sources at hand. The spec (4.1):
  a raw value of \<open>None\<close> gives the default unchanged; a raw value that is an instance of
  one of the expected types is returned as it is; anything else fails with a type-mismatch
  error that carries the value received and the expected types.
\<close>

definition checkAndSetInstance :: "pytype list \<Rightarrow> pyval \<Rightarrow> pyval \<Rightarrow> pyerror + pyval" where
  "checkAndSetInstance cls var dflt =
     (if var = PNone then Inr dflt
      else if list_ex (isinstance var) cls then Inr var
      else Inl (TypeMismatch cls var))"

text \<open>
  The number a value stands for in a comparison: \<open>True == 1 == 1.0\<close> in Python.
\<close>

fun num_of :: "pyval \<Rightarrow> real option" where
  "num_of (PBool b) = Some (if b then 1 else 0)"
| "num_of (PInt i) = Some (of_int i)"
| "num_of (PFloat r) = Some r"
| "num_of v = None"

text \<open>\<open>v != True\<close> and \<open>v != None\<close>.\<close>

definition ne_True :: "pyval \<Rightarrow> bool" where
  "ne_True v = (num_of v \<noteq> Some 1)"

definition ne_None :: "pyval \<Rightarrow> bool" where
  "ne_None v = (v \<noteq> PNone)"

text \<open>The integer an instance of \<open>int\<close> compares as (\<open>x > 0\<close>, \<open>x >= 0\<close>).\<close>

fun int_value :: "pyval \<Rightarrow> int option" where
  "int_value (PInt i) = Some i"
| "int_value (PBool b) = Some (if b then 1 else 0)"
| "int_value v = None"


section \<open>Objects and their environment\<close>

text \<open>
  An instance is its attribute dictionary, keyed by the attribute names as Python stores
  them: inside \<open>class GAPDPhotonDiffractorParameters\<close> a name \<open>self.__x\<close> is stored under
  \<open>_GAPDPhotonDiffractorParameters__x\<close>. Reading an attribute that was never assigned
  raises \<open>AttributeError\<close>. The state also records the warnings issued through
  \<open>warnings.warn\<close> and the lines printed, both in order of emission.
  A call returns the exception it raised (if any) together with the state it left behind:
  assignments made before a \<open>raise\<close> stay.
\<close>

record pstate =
  attrs :: "string \<rightharpoonup> pyval"
  warned :: "string list"
  printed :: "string list"

definition fresh :: pstate where
  "fresh = \<lparr>attrs = Map.empty, warned = [], printed = []\<rparr>"

type_synonym call = "pstate \<Rightarrow> pyerror option \<times> pstate"

definition mangled :: "string \<Rightarrow> string" where
  "mangled name = ''_GAPDPhotonDiffractorParameters__'' @ name"

definition store :: "string \<Rightarrow> pyval \<Rightarrow> pstate \<Rightarrow> pstate" where
  "store k v s = s\<lparr>attrs := (attrs s)(k \<mapsto> v)\<rparr>"

definition load :: "string \<Rightarrow> pstate \<Rightarrow> pyerror + pyval" where
  "load k s = (case attrs s k of None \<Rightarrow> Inl (AttributeError k) | Some v \<Rightarrow> Inr v)"

definition warn :: "string \<Rightarrow> pstate \<Rightarrow> pstate" where
  "warn msg s = s\<lparr>warned := warned s @ [msg]\<rparr>"

definition print :: "string \<Rightarrow> pstate \<Rightarrow> pstate" where
  "print msg s = s\<lparr>printed := printed s @ [msg]\<rparr>"

text \<open>
  What the setters ask of the outside world: \<open>os.path.isfile\<close>, and the constructor
  \<open>DetectorGeometry(filename=...)\<close> of the collaborator class, which either raises or
  gives a new geometry object.
\<close>

record env =
  isfile :: "string \<Rightarrow> bool"
  DetectorGeometry :: "string \<Rightarrow> pyerror + nat"


section \<open>GAPDPhotonDiffractorParameters: setters and queries\<close>


definition set_sample :: "pyval \<Rightarrow> call" where
  "set_sample val s =
     (if val \<noteq> PNone then
        (case checkAndSetInstance [T_str] val PNone of
           Inl e \<Rightarrow> (Some e, s)
         | Inr v \<Rightarrow> (None, store (mangled ''sample'') v s))
      else (None, store (mangled ''sample'') val s))"

definition get_sample_rotation :: "pstate \<Rightarrow> pyerror + pyval" where
  "get_sample_rotation s = load (mangled ''uniform_rotation'') s"

definition set_sample_rotation :: "pyval \<Rightarrow> call" where
  "set_sample_rotation val s =
     (if val \<noteq> PNone then
        (case checkAndSetInstance [T_bool] val (PBool False) of
           Inl e \<Rightarrow> (Some e, s)
         | Inr v \<Rightarrow> (None, store (mangled ''uniform_rotation'') v s))
      else (None, store (mangled ''uniform_rotation'') PNone s))"

text \<open>
  The query \<open>rotation_quaternion\<close> returns \<open>self.rotation_quaternion\<close>, that is, it calls
  itself. \<open>None\<close> is "no value returned".
\<close>

partial_function (option) get_rotation_quaternion :: "pstate \<Rightarrow> pyval option" where
  "get_rotation_quaternion s = get_rotation_quaternion s"

definition set_rotation_quaternion :: "pyval \<Rightarrow> call" where
  "set_rotation_quaternion val s =
     (if val \<noteq> PNone then
        (case load (mangled ''sample_rotation'') s of
           Inl e \<Rightarrow> (Some e, s)
         | Inr sr \<Rightarrow>
             if ne_True sr then
               (Some (ValueError
                  '''rotation_quaternion' is not set since 'sample_rotation' is not True.''), s)
             else
               (case load (mangled ''uniform_rotation'') s of
                  Inl e \<Rightarrow> (Some e, s)
                | Inr ur \<Rightarrow>
                    let s1 = (if ne_None ur then
                                store (mangled ''uniform_rotation'') PNone
                                  (warn ('''uniform_rotation' will be overrided by 'rotation_quaternion'' @ [CHR 0x27]) s)
                              else s)
                    in (case checkAndSetInstance [T_list, T_tuple] val PNone of
                          Inl e \<Rightarrow> (Some e, s1)
                        | Inr v \<Rightarrow> (None, store (mangled ''rotation_quaternion'') v s1))))
      else (None, store (mangled ''rotation_quaternion'') PNone s))"


definition set_uniform_rotation :: "pyval \<Rightarrow> call" where
  "set_uniform_rotation val s =
     (if val \<noteq> PNone then
        (case load (mangled ''sample_rotation'') s of
           Inl e \<Rightarrow> (Some e, s)
         | Inr sr \<Rightarrow>
             if ne_True sr then
               (Some (ValueError
                  '''uniform_rotation' is not set since 'sample_rotation' is not True.''), s)
             else
               (case load (mangled ''rotation_quaternion'') s of
                  Inl e \<Rightarrow> (Some e, s)
                | Inr rq \<Rightarrow>
                    let s1 = (if ne_None rq then
                                store (mangled ''rotation_quaternion'') PNone
                                  (warn ('''rotation_quaternion' will be overrided by 'uniform_rotation'' @ [CHR 0x27]) s)
                              else s)
                    in (case checkAndSetInstance [T_bool] val PNone of
                          Inl e \<Rightarrow> (Some e, s1)
                        | Inr v \<Rightarrow> (None, store (mangled ''uniform_rotation'') v s1))))
      else (None, store (mangled ''uniform_rotation'') PNone s))"

definition get_calculate_Compton :: "pstate \<Rightarrow> pyerror + pyval" where
  "get_calculate_Compton s = load (mangled ''calculate_Compton'') s"

definition set_calculate_Compton :: "pyval \<Rightarrow> call" where
  "set_calculate_Compton val s =
     (case checkAndSetInstance [T_bool] val (PBool False) of
        Inl e \<Rightarrow> (Some e, s)
      | Inr v \<Rightarrow> (None, store (mangled ''calculate_Compton'') v s))"

definition get_number_of_slices :: "pstate \<Rightarrow> pyerror + pyval" where
  "get_number_of_slices s = load (mangled ''number_of_slices'') s"

definition set_number_of_slices :: "pyval \<Rightarrow> call" where
  "set_number_of_slices val s =
     (case checkAndSetInstance [T_int] val (PInt 1) of
        Inl e \<Rightarrow> (Some e, s)
      | Inr number_of_slices \<Rightarrow>
          (case int_value number_of_slices of
             None \<Rightarrow> (Some (TypeError ''> not supported''), s)
           | Some n \<Rightarrow>
               if n > 0 then (None, store (mangled ''number_of_slices'') number_of_slices s)
               else (Some (ValueError
                      ''The parameter 'slice_interval' must be a positive integer.''), s)))"

definition get_slice_interval :: "pstate \<Rightarrow> pyerror + pyval" where
  "get_slice_interval s = load (mangled ''slice_interval'') s"

definition set_slice_interval :: "pyval \<Rightarrow> call" where
  "set_slice_interval val s =
     (case checkAndSetInstance [T_int] val (PInt 100) of
        Inl e \<Rightarrow> (Some e, s)
      | Inr slice_interval \<Rightarrow>
          (case int_value slice_interval of
             None \<Rightarrow> (Some (TypeError ''> not supported''), s)
           | Some n \<Rightarrow>
               if n > 0 then (None, store (mangled ''slice_interval'') slice_interval s)
               else (Some (ValueError
                      ''The parameter 'slice_interval' must be a positive integer.''), s)))"

definition get_pmi_start_ID :: "pstate \<Rightarrow> pyerror + pyval" where
  "get_pmi_start_ID s = load (mangled ''pmi_start_ID'') s"

definition set_pmi_start_ID :: "pyval \<Rightarrow> call" where
  "set_pmi_start_ID val s =
     (case checkAndSetInstance [T_int] val (PInt 1) of
        Inl e \<Rightarrow> (Some e, s)
      | Inr pmi_start_ID \<Rightarrow>
          (case int_value pmi_start_ID of
             None \<Rightarrow> (Some (TypeError ''>= not supported''), s)
           | Some n \<Rightarrow>
               if n \<ge> 0 then (None, store (mangled ''pmi_start_ID'') pmi_start_ID s)
               else (Some (ValueError
                      ''The parameters 'pmi_start_ID' must be a positive integer.''), s)))"

definition get_pmi_stop_ID :: "pstate \<Rightarrow> pyerror + pyval" where
  "get_pmi_stop_ID s = load (mangled ''pmi_stop_ID'') s"

definition set_pmi_stop_ID :: "pyval \<Rightarrow> call" where
  "set_pmi_stop_ID val s =
     (case checkAndSetInstance [T_int] val (PInt 1) of
        Inl e \<Rightarrow> (Some e, s)
      | Inr pmi_stop_ID \<Rightarrow>
          (case int_value pmi_stop_ID of
             None \<Rightarrow> (Some (TypeError ''>= not supported''), s)
           | Some n \<Rightarrow>
               if n \<ge> 0 then (None, store (mangled ''pmi_stop_ID'') pmi_stop_ID s)
               else (Some (ValueError
                      ''The parameters 'pmi_stop_ID' must be a positive integer.''), s)))"

definition get_beam_parameters :: "pstate \<Rightarrow> pyerror + pyval" where
  "get_beam_parameters s = load (mangled ''beam_parameters'') s"

definition set_beam_parameters :: "env \<Rightarrow> pyval \<Rightarrow> call" where
  "set_beam_parameters e val s =
     (case checkAndSetInstance [T_str, T_PhotonBeamParameters] val PNone of
        Inl err \<Rightarrow> (Some err, s)
      | Inr v \<Rightarrow>
          (case v of
             PStr path \<Rightarrow>
               if \<not> isfile e path then
                 (Some (IOError (''The beam_parameters '' @ path
                                   @ '' is not a valid file or filename.'')), s)
               else
                 (Some (TypeError (''Passing beam parameters as a file is currently unsupported.''
                                   @ '' Please use the PhotonBeamParameters class.'')), s)
           | _ \<Rightarrow> (None, store (mangled ''beam_parameters'') v s)))"

definition get_detector_geometry :: "pstate \<Rightarrow> pyerror + pyval" where
  "get_detector_geometry s = load (mangled ''detector_geometry'') s"

definition set_detector_geometry :: "env \<Rightarrow> pyval \<Rightarrow> call" where
  \<open>set_detector_geometry e val s =
     (if val = PNone then
        (None, store (mangled ''detector_geometry'') val
                 (print ''WARNING: Geometry not set, calculation will most probably fail.'' s))
      else
        (case checkAndSetInstance [T_str, T_DetectorGeometry] val PNone of
           Inl err \<Rightarrow> (Some err, s)
         | Inr v \<Rightarrow>
             (case v of
                PStr path \<Rightarrow>
                  if \<not> isfile e path then
                    (Some (IOError (''The parameter "detector_geometry" '' @ path
                                      @ '' is not a valid file or filename.'')), s)
                  else
                    (case DetectorGeometry e path of
                       Inl err \<Rightarrow> (Some err, s)
                     | Inr g \<Rightarrow> (None, store (mangled ''detector_geometry'') (PGeomObj g) s))
              | _ \<Rightarrow> (None, store (mangled ''detector_geometry'') v s))))\<close>

definition get_number_of_diffraction_patterns :: "pstate \<Rightarrow> pyerror + pyval" where
  "get_number_of_diffraction_patterns s = load (mangled ''number_of_diffraction_patterns'') s"

definition set_number_of_diffraction_patterns :: "pyval \<Rightarrow> call" where
  "set_number_of_diffraction_patterns val s =
     (case checkAndSetInstance [T_int] val (PInt 1) of
        Inl e \<Rightarrow> (Some e, s)
      | Inr number_of_diffraction_patterns \<Rightarrow>
          (case int_value number_of_diffraction_patterns of
             None \<Rightarrow> (Some (TypeError ''> not supported''), s)
           | Some n \<Rightarrow>
               if n > 0 then
                 (None, store (mangled ''number_of_diffraction_patterns'')
                          number_of_diffraction_patterns s)
               else (Some (ValueError
                      ''The parameters 'number_of_diffraction_patterns' must be a positive integer.''), s)))"

definition setDefaults :: call where
  "setDefaults s =
     (None, store ''_AbstractCalculatorParameters__cpus_per_task_default'' (PInt 1) s)"


section \<open>GAPDPhotonDiffractorParameters: construction\<close>

text \<open>
  The arguments of \<open>__init__\<close>. A keyword that the caller leaves out is \<open>None\<close>;
  \<open>parameters_dictionary\<close> is the legacy mapping, when one is given.
\<close>

record init_args =
  sample :: pyval
  sample_rotation :: pyval
  rotation_quaternion :: pyval
  uniform_rotation :: pyval
  calculate_Compton :: pyval
  slice_interval :: pyval
  number_of_slices :: pyval
  pmi_start_ID :: pyval
  pmi_stop_ID :: pyval
  number_of_diffraction_patterns :: pyval
  beam_parameters :: pyval
  detector_geometry :: pyval
  number_of_MPI_processes :: pyval
  parameters_dictionary :: "(string \<rightharpoonup> pyval) option"
  kwargs :: "(string \<times> pyval) list"

definition no_args :: init_args where
  "no_args = \<lparr>sample = PNone, sample_rotation = PNone, rotation_quaternion = PNone,
     uniform_rotation = PNone, calculate_Compton = PNone, slice_interval = PNone,
     number_of_slices = PNone, pmi_start_ID = PNone, pmi_stop_ID = PNone,
     number_of_diffraction_patterns = PNone, beam_parameters = PNone,
     detector_geometry = PNone, number_of_MPI_processes = PNone,
     parameters_dictionary = None, kwargs = []\<rparr>"

text \<open>Statements in sequence: the first exception ends the block.\<close>

fun block :: "call list \<Rightarrow> call" where
  "block [] s = (None, s)"
| "block (c # cs) s =
     (case c s of (None, s') \<Rightarrow> block cs s' | (Some e, s') \<Rightarrow> (Some e, s'))"

text \<open>\<open>self.field = d[key]\<close>: the lookup comes first and raises \<open>KeyError\<close>.\<close>

definition set_item :: "(string \<rightharpoonup> pyval) \<Rightarrow> string \<Rightarrow> (pyval \<Rightarrow> call) \<Rightarrow> call" where
  "set_item d key setter s =
     (case d key of None \<Rightarrow> (Some (KeyError key), s) | Some v \<Rightarrow> setter v s)"

text \<open>The body of \<open>__init__\<close> up to the call of the base class's initializer.\<close>

definition init_fields :: "env \<Rightarrow> init_args \<Rightarrow> call" where
  "init_fields e a =
     (case parameters_dictionary a of
        Some d \<Rightarrow>
          block [
            set_sample PNone,
            set_item d ''uniform_rotation'' set_uniform_rotation,
            set_item d ''calculate_Compton'' set_calculate_Compton,
            set_item d ''slice_interval'' set_slice_interval,
            set_item d ''number_of_slices'' set_number_of_slices,
            set_item d ''pmi_start_ID'' set_pmi_start_ID,
            set_item d ''pmi_stop_ID'' set_pmi_stop_ID,
            set_item d ''beam_parameters'' (set_beam_parameters e),
            set_item d ''detector_geometry'' (set_detector_geometry e),
            set_item d ''number_of_diffraction_patterns'' set_number_of_diffraction_patterns]
      | None \<Rightarrow>
          block [
            set_sample (sample a),
            set_uniform_rotation (uniform_rotation a),
            set_calculate_Compton (calculate_Compton a),
            set_slice_interval (slice_interval a),
            set_number_of_slices (number_of_slices a),
            set_pmi_start_ID (pmi_start_ID a),
            set_pmi_stop_ID (pmi_stop_ID a),
            set_beam_parameters e (beam_parameters a),
            set_detector_geometry e (detector_geometry a),
            set_number_of_diffraction_patterns (number_of_diffraction_patterns a)])"

text \<open>
  \<open>__init__\<close>: the fields, then \<open>super().__init__(**kwargs)\<close>. The base class
  \<open>AbstractCalculatorParameters\<close> is not among the sources at hand, so its initializer is a
  parameter \<open>super_init\<close> of the model.
\<close>

definition init :: "env \<Rightarrow> ((string \<times> pyval) list \<Rightarrow> call) \<Rightarrow> init_args \<Rightarrow> call" where
  "init e super_init a = block [init_fields e a, super_init (kwargs a)]"

text \<open>
  What a client can do to an object through this class, and the state an object is in after
  a sequence of such calls on a new instance. An exception leaves the object in the caller's
  hands, so later calls go on from the state the failed call left.
\<close>

datatype request =
    Set_sample pyval
  | Set_sample_rotation pyval
  | Set_rotation_quaternion pyval
  | Set_uniform_rotation pyval
  | Set_calculate_Compton pyval
  | Set_number_of_slices pyval
  | Set_slice_interval pyval
  | Set_pmi_start_ID pyval
  | Set_pmi_stop_ID pyval
  | Set_beam_parameters pyval
  | Set_detector_geometry pyval
  | Set_number_of_diffraction_patterns pyval
  | Call_setDefaults
  | Call_init_fields init_args

fun perform :: "env \<Rightarrow> request \<Rightarrow> call" where
  "perform e (Set_sample v) = set_sample v"
| "perform e (Set_sample_rotation v) = set_sample_rotation v"
| "perform e (Set_rotation_quaternion v) = set_rotation_quaternion v"
| "perform e (Set_uniform_rotation v) = set_uniform_rotation v"
| "perform e (Set_calculate_Compton v) = set_calculate_Compton v"
| "perform e (Set_number_of_slices v) = set_number_of_slices v"
| "perform e (Set_slice_interval v) = set_slice_interval v"
| "perform e (Set_pmi_start_ID v) = set_pmi_start_ID v"
| "perform e (Set_pmi_stop_ID v) = set_pmi_stop_ID v"
| "perform e (Set_beam_parameters v) = set_beam_parameters e v"
| "perform e (Set_detector_geometry v) = set_detector_geometry e v"
| "perform e (Set_number_of_diffraction_patterns v) = set_number_of_diffraction_patterns v"
| "perform e Call_setDefaults = setDefaults"
| "perform e (Call_init_fields a) = init_fields e a"

fun after :: "(env \<times> request) list \<Rightarrow> pstate \<Rightarrow> pstate" where
  "after [] s = s"
| "after ((e, r) # rs) s = after rs (snd (perform e r s))"


section \<open>Experiment versioning\<close>

text \<open>
  Modelled from the spec: the experiment construction class
  (\<open>EstherExperimentConstruction\<close>) and the parameter class it is tested with
  (\<open>EstherPhotonMatterInteractorParameters\<close>, with its read-from-snapshot initializer) are
  not among the sources at hand; only their test is. The definitions of this section follow
  sections 4.2(c), 4.3 and 6 of the spec, with the file names of the test
  (\<open>parameters.json\<close>, \<open>_intensite_impulsion\<close>).

  A parameter object of that class is the mapping it is persisted as: internal field name
  to value. The file system is a list of the paths that exist, each with what is there; a
  path is the list of its components.
\<close>

type_synonym path = "string list"

type_synonym snapshot = "(string \<times> pyval) list"

datatype node = Dir | SnapshotFile snapshot | InputFile

type_synonym filesys = "(path \<times> node) list"

datatype eerror = IOFailure path | VersionCollision path

text \<open>
  Modelled from the spec: version numbers are written in decimal without padding (6), and
  a directory counts when its name parses as a positive integer (4.3, step 2).
\<close>

definition digits :: "(char \<times> nat) list" where
  "digits = [(CHR ''0'', 0), (CHR ''1'', 1), (CHR ''2'', 2), (CHR ''3'', 3), (CHR ''4'', 4),
             (CHR ''5'', 5), (CHR ''6'', 6), (CHR ''7'', 7), (CHR ''8'', 8), (CHR ''9'', 9)]"

definition digit_of :: "char \<Rightarrow> nat option" where
  "digit_of c = map_of digits c"

definition digit_char :: "nat \<Rightarrow> char" where
  "digit_char d = fst (digits ! d)"

fun show_nat :: "nat \<Rightarrow> string" where
  "show_nat n = (if n < 10 then [digit_char n] else show_nat (n div 10) @ [digit_char (n mod 10)])"

fun parse_digits :: "nat \<Rightarrow> string \<Rightarrow> nat option" where
  "parse_digits acc [] = Some acc"
| "parse_digits acc (c # cs) =
     (case digit_of c of None \<Rightarrow> None | Some d \<Rightarrow> parse_digits (10 * acc + d) cs)"

definition parse_positive :: "string \<Rightarrow> nat option" where
  "parse_positive name =
     (if name = [] then None
      else (case parse_digits 0 name of
              None \<Rightarrow> None
            | Some n \<Rightarrow> if 0 < n then Some n else None))"

text \<open>
  Modelled from the spec: step 1 of 4.3. The experiment's directory exists afterwards, or
  the call fails with an I/O failure.
\<close>

definition ensure_dir :: "path \<Rightarrow> filesys \<Rightarrow> eerror + filesys" where
  "ensure_dir p fs =
     (case map_of fs p of
        None \<Rightarrow> Inr ((p, Dir) # fs)
      | Some Dir \<Rightarrow> Inr fs
      | Some _ \<Rightarrow> Inl (IOFailure p))"

text \<open>
  Modelled from the spec: step 2 of 4.3. The immediate subdirectories, the numbers that
  name them, and the next version: their maximum (0 if none) plus one.
\<close>

definition subdirs :: "filesys \<Rightarrow> path \<Rightarrow> string list" where
  "subdirs fs base =
     map last (filter (\<lambda>p. p \<noteq> [] \<and> butlast p = base \<and> map_of fs p = Some Dir) (map fst fs))"

definition existing_versions :: "filesys \<Rightarrow> path \<Rightarrow> nat list" where
  "existing_versions fs base = List.map_filter parse_positive (subdirs fs base)"

definition next_version :: "filesys \<Rightarrow> path \<Rightarrow> nat" where
  "next_version fs base = fold max (existing_versions fs base) 0 + 1"

record experiment_version =
  version :: nat
  snapshot_file :: path
  input_files :: "path list"

text \<open>
  Modelled from the spec: steps 3 to 5 of 4.3 and the layout of 6. They put four entries
  under the experiment's directory: the version directory, then the snapshot, then the
  primary input file and its companion (the newest entry comes first). \<open>ext\<close> is the
  file extension that the parameters select.
\<close>

definition version_entries :: "path \<Rightarrow> string \<Rightarrow> string \<Rightarrow> nat \<Rightarrow> snapshot \<Rightarrow> filesys" where
  "version_entries workspace_root experiment_name ext v parameters =
     (let vdir = workspace_root @ [experiment_name, show_nat v];
          stem = experiment_name @ show_nat v
      in [(vdir @ [stem @ ''_intensite_impulsion.'' @ ext], InputFile),
          (vdir @ [stem @ ''.'' @ ext], InputFile),
          (vdir @ [''parameters.json''], SnapshotFile parameters),
          (vdir, Dir)])"

text \<open>
  Modelled from the spec: the contract \<open>construct\<close> of 4.3, steps 1 to 6, with the
  failure on a version directory that is already there. \<open>ext_of\<close> is the format toggle
  of the spec (the rule that selects the extension from the parameters, which the spec
  leaves open).
\<close>

definition construct ::
  "(snapshot \<Rightarrow> string) \<Rightarrow> snapshot \<Rightarrow> path \<Rightarrow> string \<Rightarrow> filesys
     \<Rightarrow> eerror + (experiment_version \<times> filesys)" where
  "construct ext_of parameters workspace_root experiment_name fs =
     (let base = workspace_root @ [experiment_name] in
      case ensure_dir base fs of
        Inl err \<Rightarrow> Inl err
      | Inr fs1 \<Rightarrow>
          let v = next_version fs1 base;
              vdir = workspace_root @ [experiment_name, show_nat v]
          in (case map_of fs1 vdir of
                Some n \<Rightarrow> Inl (VersionCollision vdir)
              | None \<Rightarrow>
                  let stem = experiment_name @ show_nat v;
                      ext = ext_of parameters
                  in Inr (\<lparr>version = v,
                            snapshot_file = vdir @ [''parameters.json''],
                            input_files = [vdir @ [stem @ ''.'' @ ext],
                                           vdir @ [stem @ ''_intensite_impulsion.'' @ ext]]\<rparr>,
                          version_entries workspace_root experiment_name ext v parameters @ fs1)))"

text \<open>
  Modelled from the spec: the read-from-snapshot initializer of 4.2(c): the persisted
  mapping of the given version directory, with each keyword override stored under the
  internal name of its field.
\<close>

definition internal_name :: "string \<Rightarrow> string" where
  "internal_name field = ''_EstherPhotonMatterInteractorParameters__'' @ field"

fun apply_overrides :: "(string \<times> pyval) list \<Rightarrow> snapshot \<Rightarrow> snapshot" where
  "apply_overrides [] snap = snap"
| "apply_overrides ((field, v) # rest) snap =
     apply_overrides rest (AList.update (internal_name field) v snap)"

definition read_from_file :: "filesys \<Rightarrow> path \<Rightarrow> (string \<times> pyval) list \<Rightarrow> eerror + snapshot" where
  "read_from_file fs dir overrides =
     (case map_of fs (dir @ [''parameters.json'']) of
        Some (SnapshotFile snap) \<Rightarrow> Inr (apply_overrides overrides snap)
      | _ \<Rightarrow> Inl (IOFailure (dir @ [''parameters.json''])))"


text \<open>
  Modelled from the spec: the object that the keyword construction of the test gives is the
  mapping from the internal names of its fields to their values (3 and 6).
  The workflow of the test \<open>testComplexWorkflow\<close>: parameters built from keywords, two
  constructions with them under the name \<open>HPLF-Fe\<close>, then parameters read from version 2
  with \<open>sample_thickness=4.0\<close> and a third construction. The result is the three version
  descriptors and the file system at the end.
\<close>

definition test_parameters :: snapshot where
  "test_parameters =
     [(internal_name ''number_of_layers'', PInt 2),
      (internal_name ''ablator'', PStr ''CH''),
      (internal_name ''ablator_thickness'', PFloat 25),
      (internal_name ''sample'', PStr ''Iron''),
      (internal_name ''sample_thickness'', PFloat 5),
      (internal_name ''window'', PNone),
      (internal_name ''window_thickness'', PFloat 0),
      (internal_name ''laser_wavelength'', PFloat 1064),
      (internal_name ''laser_pulse'', PStr ''flat''),
      (internal_name ''laser_pulse_duration'', PFloat 1),
      (internal_name ''laser_intensity'', PFloat (1 / 10)),
      (internal_name ''run_time'', PFloat 10),
      (internal_name ''delta_time'', PFloat (5 / 100))]"

definition testComplexWorkflow ::
  "(snapshot \<Rightarrow> string) \<Rightarrow> filesys \<Rightarrow> eerror + (experiment_version list \<times> filesys)" where
  "testComplexWorkflow ext_of fs0 =
     (case construct ext_of test_parameters [''Simulations''] ''HPLF-Fe'' fs0 of
        Inl err \<Rightarrow> Inl err
      | Inr (ev1, fs1) \<Rightarrow>
     (case construct ext_of test_parameters [''Simulations''] ''HPLF-Fe'' fs1 of
        Inl err \<Rightarrow> Inl err
      | Inr (ev2, fs2) \<Rightarrow>
     (case read_from_file fs2 [''Simulations'', ''HPLF-Fe'', ''2'']
             [(''sample_thickness'', PFloat 4)] of
        Inl err \<Rightarrow> Inl err
      | Inr new_parameters \<Rightarrow>
     (case construct ext_of new_parameters [''Simulations''] ''HPLF-Fe'' fs2 of
        Inl err \<Rightarrow> Inl err
      | Inr (ev3, fs3) \<Rightarrow> Inr ([ev1, ev2, ev3], fs3)))))"

section \<open>Basic facts\<close>

lemma mangled_inj [simp]: "(mangled a = mangled b) = (a = b)"
  by (simp add: mangled_def)

lemma mangled_not_base [simp]:
  "mangled a \<noteq> ''_AbstractCalculatorParameters__cpus_per_task_default''"
  by (simp add: mangled_def)

lemma attrs_store [simp]: "attrs (store k v s) = (attrs s)(k \<mapsto> v)"
  by (simp add: store_def)

lemma warned_store [simp]: "warned (store k v s) = warned s"
  by (simp add: store_def)

lemma printed_store [simp]: "printed (store k v s) = printed s"
  by (simp add: store_def)

lemma attrs_warn [simp]: "attrs (warn m s) = attrs s"
  by (simp add: warn_def)

lemma attrs_print [simp]: "attrs (print m s) = attrs s"
  by (simp add: print_def)

lemma warned_warn [simp]: "warned (warn m s) = warned s @ [m]"
  by (simp add: warn_def)

lemma load_store [simp]: "load k (store k' v s) = (if k = k' then Inr v else load k s)"
  by (simp add: load_def)

lemma check_None [simp]: "checkAndSetInstance cls PNone d = Inr d"
  by (simp add: checkAndSetInstance_def)


text \<open>Each setter writes only the slots it names.\<close>

lemma set_sample_frame:
  "k \<noteq> mangled ''sample'' \<Longrightarrow> attrs (snd (set_sample v s)) k = attrs s k"
  by (simp add: set_sample_def split: sum.splits)

lemma set_sample_rotation_frame:
  "k \<noteq> mangled ''uniform_rotation'' \<Longrightarrow> attrs (snd (set_sample_rotation v s)) k = attrs s k"
  by (simp add: set_sample_rotation_def split: sum.splits)

lemma set_rotation_quaternion_frame:
  "k \<noteq> mangled ''uniform_rotation'' \<Longrightarrow> k \<noteq> mangled ''rotation_quaternion'' \<Longrightarrow>
   attrs (snd (set_rotation_quaternion v s)) k = attrs s k"
  by (simp add: set_rotation_quaternion_def Let_def split: sum.splits)

lemma set_uniform_rotation_frame:
  "k \<noteq> mangled ''uniform_rotation'' \<Longrightarrow> k \<noteq> mangled ''rotation_quaternion'' \<Longrightarrow>
   attrs (snd (set_uniform_rotation v s)) k = attrs s k"
  by (simp add: set_uniform_rotation_def Let_def split: sum.splits)

lemma set_calculate_Compton_frame:
  "k \<noteq> mangled ''calculate_Compton'' \<Longrightarrow> attrs (snd (set_calculate_Compton v s)) k = attrs s k"
  by (simp add: set_calculate_Compton_def split: sum.splits)

lemma set_number_of_slices_frame:
  "k \<noteq> mangled ''number_of_slices'' \<Longrightarrow> attrs (snd (set_number_of_slices v s)) k = attrs s k"
  by (simp add: set_number_of_slices_def split: sum.splits option.splits)

lemma set_slice_interval_frame:
  "k \<noteq> mangled ''slice_interval'' \<Longrightarrow> attrs (snd (set_slice_interval v s)) k = attrs s k"
  by (simp add: set_slice_interval_def split: sum.splits option.splits)

lemma set_pmi_start_ID_frame:
  "k \<noteq> mangled ''pmi_start_ID'' \<Longrightarrow> attrs (snd (set_pmi_start_ID v s)) k = attrs s k"
  by (simp add: set_pmi_start_ID_def split: sum.splits option.splits)

lemma set_pmi_stop_ID_frame:
  "k \<noteq> mangled ''pmi_stop_ID'' \<Longrightarrow> attrs (snd (set_pmi_stop_ID v s)) k = attrs s k"
  by (simp add: set_pmi_stop_ID_def split: sum.splits option.splits)

lemma set_beam_parameters_frame:
  "k \<noteq> mangled ''beam_parameters'' \<Longrightarrow> attrs (snd (set_beam_parameters e v s)) k = attrs s k"
  by (simp add: set_beam_parameters_def split: sum.splits pyval.splits)

lemma set_detector_geometry_frame:
  "k \<noteq> mangled ''detector_geometry'' \<Longrightarrow> attrs (snd (set_detector_geometry e v s)) k = attrs s k"
  by (simp add: set_detector_geometry_def split: sum.splits pyval.splits)

lemma set_number_of_diffraction_patterns_frame:
  "k \<noteq> mangled ''number_of_diffraction_patterns'' \<Longrightarrow>
   attrs (snd (set_number_of_diffraction_patterns v s)) k = attrs s k"
  by (simp add: set_number_of_diffraction_patterns_def split: sum.splits option.splits)

lemma setDefaults_frame:
  "k \<noteq> ''_AbstractCalculatorParameters__cpus_per_task_default'' \<Longrightarrow>
   attrs (snd (setDefaults s)) k = attrs s k"
  by (simp add: setDefaults_def)

lemma set_item_frame:
  assumes "\<And>v s. attrs (snd (setter v s)) k = attrs s k"
  shows "attrs (snd (set_item d key setter s)) k = attrs s k"
  using assms by (simp add: set_item_def split: option.splits)

lemma block_frame:
  assumes "\<And>c s. c \<in> set cs \<Longrightarrow> attrs (snd (c s)) k = attrs s k"
  shows "attrs (snd (block cs s)) k = attrs s k"
  using assms
proof (induction cs arbitrary: s)
  case Nil
  then show ?case by simp
next
  case (Cons c cs)
  have step: "attrs (snd (c s)) k = attrs s k" using Cons.prems by simp
  show ?case
  proof (cases "c s")
    case (Pair r s1)
    then show ?thesis using step Cons by (cases r) auto
  qed
qed

lemma block_Cons_ok:
  "block (c # cs) s = (None, s') \<longleftrightarrow> (\<exists>s1. c s = (None, s1) \<and> block cs s1 = (None, s'))"
  by (cases "c s") (auto split: option.splits)


lemma block_single: "block [c] s = c s"
  by (cases "c s") (auto split: option.splits)

lemma block_step: "c s = (None, s1) \<Longrightarrow> block (c # cs) s = block cs s1"
  by simp

lemma get_rq_no_result: "get_rotation_quaternion s = Some y \<Longrightarrow> False"
  by (rule get_rotation_quaternion.raw_induct [where P = "\<lambda>_ _. False"])

text \<open>
  Claim C10. The query \<open>rotation_quaternion\<close> is defined by calling itself, so on every
  object a read of \<open>rotation_quaternion\<close> never returns a value (CPython ends the
  unbounded recursion with a \<open>RecursionError\<close>).
\<close>

theorem rotation_quaternion_query_never_returns: "get_rotation_quaternion s = None"
proof (cases "get_rotation_quaternion s")
  case None
  then show ?thesis .
next
  case (Some y)
  then show ?thesis using get_rq_no_result by blast
qed

lemma check_int_PInt [simp]: "checkAndSetInstance [T_int] (PInt n) d = Inr (PInt n)"
  by (simp add: checkAndSetInstance_def)

text \<open>
  Claim C6. Each of the five count fields rejects an out-of-bound integer at set-time with a
  \<open>ValueError\<close> and leaves the object as it was; an in-bound integer is stored as given
  (never clamped). \<open>number_of_slices = 0\<close> fails, \<open>number_of_slices = None\<close> stores the
  default 1, and \<open>slice_interval = -5\<close> fails.
\<close>

theorem count_fields_reject_out_of_bound:
  "(n \<le> 0 \<longrightarrow>
      set_number_of_slices (PInt n) s =
        (Some (ValueError ''The parameter 'slice_interval' must be a positive integer.''), s)
    \<and> set_slice_interval (PInt n) s =
        (Some (ValueError ''The parameter 'slice_interval' must be a positive integer.''), s)
    \<and> set_number_of_diffraction_patterns (PInt n) s =
        (Some (ValueError
           ''The parameters 'number_of_diffraction_patterns' must be a positive integer.''), s))
   \<and> (n < 0 \<longrightarrow>
      set_pmi_start_ID (PInt n) s =
        (Some (ValueError ''The parameters 'pmi_start_ID' must be a positive integer.''), s)
    \<and> set_pmi_stop_ID (PInt n) s =
        (Some (ValueError ''The parameters 'pmi_stop_ID' must be a positive integer.''), s))
   \<and> (0 < n \<longrightarrow>
      set_number_of_slices (PInt n) s = (None, store (mangled ''number_of_slices'') (PInt n) s)
    \<and> set_slice_interval (PInt n) s = (None, store (mangled ''slice_interval'') (PInt n) s)
    \<and> set_number_of_diffraction_patterns (PInt n) s =
        (None, store (mangled ''number_of_diffraction_patterns'') (PInt n) s))
   \<and> (0 \<le> n \<longrightarrow>
      set_pmi_start_ID (PInt n) s = (None, store (mangled ''pmi_start_ID'') (PInt n) s)
    \<and> set_pmi_stop_ID (PInt n) s = (None, store (mangled ''pmi_stop_ID'') (PInt n) s))
   \<and> set_number_of_slices (PInt 0) s =
        (Some (ValueError ''The parameter 'slice_interval' must be a positive integer.''), s)
   \<and> set_number_of_slices PNone s = (None, store (mangled ''number_of_slices'') (PInt 1) s)
   \<and> get_number_of_slices (snd (set_number_of_slices PNone s)) = Inr (PInt 1)
   \<and> set_slice_interval (PInt (- 5)) s =
        (Some (ValueError ''The parameter 'slice_interval' must be a positive integer.''), s)"
  by (simp add: set_number_of_slices_def set_slice_interval_def
        set_number_of_diffraction_patterns_def set_pmi_start_ID_def set_pmi_stop_ID_def
        get_number_of_slices_def)

text \<open>
  The bounds of C6 at concrete values on a new object.
\<close>

theorem count_fields_reject_out_of_bound_witness:
  "set_number_of_slices (PInt 0) fresh =
     (Some (ValueError ''The parameter 'slice_interval' must be a positive integer.''), fresh)
   \<and> set_pmi_start_ID (PInt (- 5)) fresh =
     (Some (ValueError ''The parameters 'pmi_start_ID' must be a positive integer.''), fresh)
   \<and> set_slice_interval (PInt 3) fresh = (None, store (mangled ''slice_interval'') (PInt 3) fresh)
   \<and> set_pmi_stop_ID (PInt 0) fresh = (None, store (mangled ''pmi_stop_ID'') (PInt 0) fresh)"
  using count_fields_reject_out_of_bound [of 0 fresh]
        count_fields_reject_out_of_bound [of "- 5" fresh]
        count_fields_reject_out_of_bound [of 3 fresh]
  by simp


section \<open>Default construction\<close>

text \<open>The field assignments of a construction with no argument (or with only the two
  arguments that the constructor never reads) complete, with these slots.\<close>

lemma fst_None_collapse: "fst x = None \<Longrightarrow> x = (None, snd x)"
  by (cases x) simp

lemmas setter_defs = set_sample_def set_sample_rotation_def set_rotation_quaternion_def
  set_uniform_rotation_def set_calculate_Compton_def set_number_of_slices_def
  set_slice_interval_def set_pmi_start_ID_def set_pmi_stop_ID_def set_beam_parameters_def
  set_detector_geometry_def set_number_of_diffraction_patterns_def

lemma init_fields_no_args:
  "init_fields e (no_args\<lparr>sample_rotation := r, rotation_quaternion := q\<rparr>) fresh =
     (None,
      store (mangled ''number_of_diffraction_patterns'') (PInt 1)
       (store (mangled ''detector_geometry'') PNone
         (print ''WARNING: Geometry not set, calculation will most probably fail.''
           (store (mangled ''beam_parameters'') PNone
             (store (mangled ''pmi_stop_ID'') (PInt 1)
               (store (mangled ''pmi_start_ID'') (PInt 1)
                 (store (mangled ''number_of_slices'') (PInt 1)
                   (store (mangled ''slice_interval'') (PInt 100)
                     (store (mangled ''calculate_Compton'') (PBool False)
                       (store (mangled ''uniform_rotation'') PNone
                         (store (mangled ''sample'') PNone fresh)))))))))))"
  by (simp add: init_fields_def no_args_def setter_defs)

lemma init_no_args:
  "init e super_init (no_args\<lparr>sample_rotation := r, rotation_quaternion := q\<rparr>) fresh =
     super_init [] (snd (init_fields e (no_args\<lparr>sample_rotation := r, rotation_quaternion := q\<rparr>) fresh))"
proof -
  let ?a = "no_args\<lparr>sample_rotation := r, rotation_quaternion := q\<rparr>"
  have k: "kwargs ?a = []" by (simp add: no_args_def)
  have d: "init_fields e ?a fresh = (None, snd (init_fields e ?a fresh))"
    using init_fields_no_args [where e = e and r = r and q = q] by simp
  show ?thesis
    unfolding init_def k
    by (subst block_step [where c = "init_fields e ?a" and s = fresh, OF d]) (rule block_single)
qed


section \<open>The beam parameters field\<close>


lemma check_str [simp]: "checkAndSetInstance (T_str # cls) (PStr p) d = Inr (PStr p)"
  by (simp add: checkAndSetInstance_def)

lemma set_beam_parameters_ok:
  assumes "set_beam_parameters e v s = (None, s')"
  shows "get_beam_parameters s' = Inr PNone \<or> (\<exists>h. get_beam_parameters s' = Inr (PBeamObj h))"
proof (cases "v = PNone")
  case True
  then show ?thesis using assms
    by (auto simp: set_beam_parameters_def get_beam_parameters_def)
next
  case False
  then show ?thesis using assms
    by (cases v)
       (auto simp: set_beam_parameters_def get_beam_parameters_def checkAndSetInstance_def
             split: if_splits)
qed

lemma set_item_ok:
  "set_item d key setter s = (None, s') \<Longrightarrow> \<exists>v. d key = Some v \<and> setter v s = (None, s')"
  by (auto simp: set_item_def split: option.splits)

lemma init_fields_beam:
  assumes "init_fields e a s = (None, s')"
  shows "get_beam_parameters s' = Inr PNone \<or> (\<exists>h. get_beam_parameters s' = Inr (PBeamObj h))"
proof (cases "parameters_dictionary a")
  case None
  with assms obtain s7 s8 s9 where
      b: "set_beam_parameters e (beam_parameters a) s7 = (None, s8)"
    and g: "set_detector_geometry e (detector_geometry a) s8 = (None, s9)"
    and n: "set_number_of_diffraction_patterns (number_of_diffraction_patterns a) s9 = (None, s')"
    by (auto simp: init_fields_def block_Cons_ok simp del: block.simps(2))
  have "attrs s' (mangled ''beam_parameters'') = attrs s8 (mangled ''beam_parameters'')"
    using g n set_detector_geometry_frame [of "mangled ''beam_parameters''" e "detector_geometry a" s8]
      set_number_of_diffraction_patterns_frame [of "mangled ''beam_parameters''" "number_of_diffraction_patterns a" s9]
    by simp
  then have "get_beam_parameters s' = get_beam_parameters s8"
    by (simp add: get_beam_parameters_def load_def)
  then show ?thesis using set_beam_parameters_ok [OF b] by simp
next
  case (Some d)
  with assms obtain s7 s8 s9 where
      b: "set_item d ''beam_parameters'' (set_beam_parameters e) s7 = (None, s8)"
    and g: "set_item d ''detector_geometry'' (set_detector_geometry e) s8 = (None, s9)"
    and n: "set_item d ''number_of_diffraction_patterns'' set_number_of_diffraction_patterns s9 = (None, s')"
    by (auto simp: init_fields_def block_Cons_ok simp del: block.simps(2))
  from set_item_ok [OF b] obtain vb where b': "set_beam_parameters e vb s7 = (None, s8)" by blast
  from set_item_ok [OF g] obtain vg where g': "set_detector_geometry e vg s8 = (None, s9)" by blast
  from set_item_ok [OF n] obtain vn where n': "set_number_of_diffraction_patterns vn s9 = (None, s')" by blast
  have "attrs s' (mangled ''beam_parameters'') = attrs s8 (mangled ''beam_parameters'')"
    using g' n' set_detector_geometry_frame [of "mangled ''beam_parameters''" e vg s8]
      set_number_of_diffraction_patterns_frame [of "mangled ''beam_parameters''" vn s9]
    by simp
  then have "get_beam_parameters s' = get_beam_parameters s8"
    by (simp add: get_beam_parameters_def load_def)
  then show ?thesis using set_beam_parameters_ok [OF b'] by simp
qed

lemma init_beam:
  assumes frame: "\<And>kw t. attrs (snd (super_init kw t)) (mangled ''beam_parameters'')
                          = attrs t (mangled ''beam_parameters'')"
    and ok: "init e super_init a s = (None, s')"
  shows "get_beam_parameters s' = Inr PNone \<or> (\<exists>h. get_beam_parameters s' = Inr (PBeamObj h))"
proof -
  from ok obtain s1 where f: "init_fields e a s = (None, s1)"
    and b: "super_init (kwargs a) s1 = (None, s')"
    unfolding init_def by (auto simp: block_Cons_ok block_single simp del: block.simps(2))
  have "attrs s' (mangled ''beam_parameters'') = attrs s1 (mangled ''beam_parameters'')"
    using frame [of "kwargs a" s1] b by simp
  then have "get_beam_parameters s' = get_beam_parameters s1"
    by (simp add: get_beam_parameters_def load_def)
  then show ?thesis using init_fields_beam [OF f] by simp
qed

text \<open>
  Claim C8. A string given to \<open>beam_parameters\<close> always fails: with \<open>IOError\<close> naming the
  path when it is not an existing file, with the unsupported-feature \<open>TypeError\<close> when
  it is. Whenever the setter or the field assignments of the constructor complete,
  \<open>beam_parameters\<close> holds \<open>None\<close> or a \<open>PhotonBeamParameters\<close> object; so it does after
  a completed construction, for any base class initializer that leaves the slot alone.
\<close>

theorem beam_parameters_never_a_string:
  "(\<not> isfile e p \<longrightarrow>
      set_beam_parameters e (PStr p) s =
        (Some (IOError (''The beam_parameters '' @ p @ '' is not a valid file or filename.'')), s))
   \<and> (isfile e p \<longrightarrow>
      set_beam_parameters e (PStr p) s =
        (Some (TypeError (''Passing beam parameters as a file is currently unsupported.''
                          @ '' Please use the PhotonBeamParameters class.'')), s))
   \<and> (set_beam_parameters e v s = (None, s') \<longrightarrow>
        get_beam_parameters s' = Inr PNone \<or> (\<exists>h. get_beam_parameters s' = Inr (PBeamObj h)))
   \<and> (init_fields e a s = (None, s') \<longrightarrow>
        get_beam_parameters s' = Inr PNone \<or> (\<exists>h. get_beam_parameters s' = Inr (PBeamObj h)))
   \<and> ((\<forall>kw t. attrs (snd (super_init kw t)) (mangled ''beam_parameters'')
                  = attrs t (mangled ''beam_parameters''))
        \<longrightarrow> init e super_init a s = (None, s')
        \<longrightarrow> get_beam_parameters s' = Inr PNone \<or> (\<exists>h. get_beam_parameters s' = Inr (PBeamObj h)))"
  using set_beam_parameters_ok [of e v s s'] init_fields_beam [of e a s s']
    init_beam [of super_init e a s s']
  by (simp add: set_beam_parameters_def)


text \<open>C8 on a system where only \<open>beam.json\<close> exists: both string failures, an
  accepted object, and a default construction.\<close>

theorem beam_parameters_never_a_string_witness:
  "\<not> isfile \<lparr>isfile = (\<lambda>p. p = ''beam.json''), DetectorGeometry = (\<lambda>p. Inr 0)\<rparr> ''missing.json''
   \<and> set_beam_parameters \<lparr>isfile = (\<lambda>p. p = ''beam.json''), DetectorGeometry = (\<lambda>p. Inr 0)\<rparr>
        (PStr ''missing.json'') fresh =
        (Some (IOError ''The beam_parameters missing.json is not a valid file or filename.''), fresh)
   \<and> isfile \<lparr>isfile = (\<lambda>p. p = ''beam.json''), DetectorGeometry = (\<lambda>p. Inr 0)\<rparr> ''beam.json''
   \<and> set_beam_parameters \<lparr>isfile = (\<lambda>p. p = ''beam.json''), DetectorGeometry = (\<lambda>p. Inr 0)\<rparr>
        (PStr ''beam.json'') fresh =
        (Some (TypeError (''Passing beam parameters as a file is currently unsupported.''
                          @ '' Please use the PhotonBeamParameters class.'')), fresh)
   \<and> set_beam_parameters \<lparr>isfile = (\<lambda>p. p = ''beam.json''), DetectorGeometry = (\<lambda>p. Inr 0)\<rparr>
        (PBeamObj 7) fresh = (None, store (mangled ''beam_parameters'') (PBeamObj 7) fresh)
   \<and> (get_beam_parameters (store (mangled ''beam_parameters'') (PBeamObj 7) fresh) = Inr PNone
        \<or> (\<exists>h. get_beam_parameters (store (mangled ''beam_parameters'') (PBeamObj 7) fresh)
                 = Inr (PBeamObj h)))
   \<and> fst (init_fields \<lparr>isfile = (\<lambda>p. p = ''beam.json''), DetectorGeometry = (\<lambda>p. Inr 0)\<rparr>
             no_args fresh) = None
   \<and> (get_beam_parameters
         (snd (init_fields \<lparr>isfile = (\<lambda>p. p = ''beam.json''), DetectorGeometry = (\<lambda>p. Inr 0)\<rparr>
                 no_args fresh)) = Inr PNone
        \<or> (\<exists>h. get_beam_parameters
         (snd (init_fields \<lparr>isfile = (\<lambda>p. p = ''beam.json''), DetectorGeometry = (\<lambda>p. Inr 0)\<rparr>
                 no_args fresh)) = Inr (PBeamObj h)))
   \<and> fst (init \<lparr>isfile = (\<lambda>p. p = ''beam.json''), DetectorGeometry = (\<lambda>p. Inr 0)\<rparr>
             (\<lambda>kw. setDefaults) no_args fresh) = None
   \<and> (get_beam_parameters
         (snd (init \<lparr>isfile = (\<lambda>p. p = ''beam.json''), DetectorGeometry = (\<lambda>p. Inr 0)\<rparr>
                 (\<lambda>kw. setDefaults) no_args fresh)) = Inr PNone
        \<or> (\<exists>h. get_beam_parameters
         (snd (init \<lparr>isfile = (\<lambda>p. p = ''beam.json''), DetectorGeometry = (\<lambda>p. Inr 0)\<rparr>
                 (\<lambda>kw. setDefaults) no_args fresh)) = Inr (PBeamObj h)))"
proof -
  let ?E = "\<lparr>isfile = (\<lambda>p. p = ''beam.json''), DetectorGeometry = (\<lambda>p. Inr 0)\<rparr>"
  have a: "set_beam_parameters ?E (PBeamObj 7) fresh =
             (None, store (mangled ''beam_parameters'') (PBeamObj 7) fresh)"
    by (simp add: set_beam_parameters_def checkAndSetInstance_def)
  have f: "fst (init_fields ?E no_args fresh) = None"
    using init_fields_no_args [of ?E PNone PNone] by (simp add: no_args_def)
  have b: "init_fields ?E no_args fresh = (None, snd (init_fields ?E no_args fresh))"
    using f by (rule fst_None_collapse)
  have fr: "\<forall>kw t. attrs (snd (setDefaults t)) (mangled ''beam_parameters'')
                  = attrs t (mangled ''beam_parameters'')"
    by (simp add: setDefaults_frame)
  have g: "fst (init ?E (\<lambda>kw. setDefaults) no_args fresh) = None"
    using init_no_args [where e = ?E and super_init = "\<lambda>kw. setDefaults" and r = PNone and q = PNone]
    by (simp add: no_args_def setDefaults_def)
  have c: "init ?E (\<lambda>kw. setDefaults) no_args fresh
             = (None, snd (init ?E (\<lambda>kw. setDefaults) no_args fresh))"
    using g by (rule fst_None_collapse)
  have i: "get_beam_parameters (snd (init ?E (\<lambda>kw. setDefaults) no_args fresh)) = Inr PNone
        \<or> (\<exists>h. get_beam_parameters (snd (init ?E (\<lambda>kw. setDefaults) no_args fresh))
                 = Inr (PBeamObj h))"
    using beam_parameters_never_a_string
            [where e = ?E and super_init = "\<lambda>kw. setDefaults" and a = no_args and s = fresh
               and s' = "snd (init ?E (\<lambda>kw. setDefaults) no_args fresh)"]
          fr c
    by blast
  show ?thesis
    using beam_parameters_never_a_string
            [where e = ?E and p = "''missing.json''" and s = fresh and v = "PBeamObj 7"
               and s' = "store (mangled ''beam_parameters'') (PBeamObj 7) fresh"]
          beam_parameters_never_a_string
            [where e = ?E and p = "''beam.json''" and s = fresh and a = no_args
               and s' = "snd (init_fields ?E no_args fresh)"]
          a b f g i
    by simp
qed

section \<open>The rotation fields\<close>


lemma init_fields_frame:
  assumes "k \<notin> mangled ` {''sample'', ''uniform_rotation'', ''rotation_quaternion'',
     ''calculate_Compton'', ''slice_interval'', ''number_of_slices'', ''pmi_start_ID'',
     ''pmi_stop_ID'', ''beam_parameters'', ''detector_geometry'',
     ''number_of_diffraction_patterns''}"
  shows "attrs (snd (init_fields e a s)) k = attrs s k"
proof (cases "parameters_dictionary a")
  case None
  show ?thesis
    unfolding init_fields_def None option.case
    by (rule block_frame)
       (use assms in \<open>auto simp: set_sample_frame set_uniform_rotation_frame
          set_calculate_Compton_frame set_slice_interval_frame set_number_of_slices_frame
          set_pmi_start_ID_frame set_pmi_stop_ID_frame set_beam_parameters_frame
          set_detector_geometry_frame set_number_of_diffraction_patterns_frame\<close>)
next
  case (Some d)
  show ?thesis
    unfolding init_fields_def Some option.case
    by (rule block_frame)
       (use assms in \<open>auto intro!: set_item_frame simp: set_sample_frame set_uniform_rotation_frame
          set_calculate_Compton_frame set_slice_interval_frame set_number_of_slices_frame
          set_pmi_start_ID_frame set_pmi_stop_ID_frame set_beam_parameters_frame
          set_detector_geometry_frame set_number_of_diffraction_patterns_frame\<close>)
qed

lemma perform_keeps_sample_rotation:
  "attrs (snd (perform e r s)) (mangled ''sample_rotation'') = attrs s (mangled ''sample_rotation'')"
  by (cases r)
     (simp_all add: set_sample_frame set_sample_rotation_frame set_rotation_quaternion_frame
        set_uniform_rotation_frame set_calculate_Compton_frame set_slice_interval_frame
        set_number_of_slices_frame set_pmi_start_ID_frame set_pmi_stop_ID_frame
        set_beam_parameters_frame set_detector_geometry_frame
        set_number_of_diffraction_patterns_frame setDefaults_frame init_fields_frame)

lemma after_keeps_sample_rotation:
  "attrs (after script s) (mangled ''sample_rotation'') = attrs s (mangled ''sample_rotation'')"
proof (induction script arbitrary: s)
  case Nil
  show ?case by simp
next
  case (Cons x script)
  obtain e r where x: "x = (e, r)" by (cases x)
  show ?case using Cons.IH [of "snd (perform e r s)"] perform_keeps_sample_rotation [of e r s]
    by (simp add: x)
qed

lemma no_sample_rotation_slot:
  "attrs (after script fresh) (mangled ''sample_rotation'') = None"
  using after_keeps_sample_rotation [of script fresh] by (simp add: fresh_def)



lemma load_absent: "attrs s k = None \<Longrightarrow> load k s = Inl (AttributeError k)"
  by (simp add: load_def)








text \<open>
  Claim C3 (what the code does instead). On every object reached from a new instance through
  this class, assigning a value other than \<open>None\<close> to \<open>rotation_quaternion\<close> or to
  \<open>uniform_rotation\<close> raises \<open>AttributeError\<close> for the slot \<open>sample_rotation\<close>, which no
  code of the class writes, and changes nothing: no warning, nothing cleared.
\<close>

theorem rotation_fields_never_settable:
  assumes "v \<noteq> PNone"
  shows "set_rotation_quaternion v (after script fresh) =
           (Some (AttributeError (mangled ''sample_rotation'')), after script fresh)
       \<and> set_uniform_rotation v (after script fresh) =
           (Some (AttributeError (mangled ''sample_rotation'')), after script fresh)"
  using assms load_absent [OF no_sample_rotation_slot [of script]]
  by (simp add: set_rotation_quaternion_def set_uniform_rotation_def)

text \<open>The scenario of C3: a default object with \<open>sample_rotation = True\<close> (so the
  \<open>uniform_rotation\<close> query is non-\<open>None\<close>), then \<open>rotation_quaternion = [1, 0, 0, 0]\<close>.\<close>

theorem rotation_fields_never_settable_witness:
  "PList [PInt 1, PInt 0, PInt 0, PInt 0] \<noteq> PNone
   \<and> get_sample_rotation
        (after [(\<lparr>isfile = (\<lambda>p. False), DetectorGeometry = (\<lambda>p. Inr 0)\<rparr>, Call_init_fields no_args),
                (\<lparr>isfile = (\<lambda>p. False), DetectorGeometry = (\<lambda>p. Inr 0)\<rparr>,
                 Set_sample_rotation (PBool True))] fresh) = Inr (PBool True)
   \<and> set_rotation_quaternion (PList [PInt 1, PInt 0, PInt 0, PInt 0])
        (after [(\<lparr>isfile = (\<lambda>p. False), DetectorGeometry = (\<lambda>p. Inr 0)\<rparr>, Call_init_fields no_args),
                (\<lparr>isfile = (\<lambda>p. False), DetectorGeometry = (\<lambda>p. Inr 0)\<rparr>,
                 Set_sample_rotation (PBool True))] fresh)
      = (Some (AttributeError (mangled ''sample_rotation'')),
         after [(\<lparr>isfile = (\<lambda>p. False), DetectorGeometry = (\<lambda>p. Inr 0)\<rparr>, Call_init_fields no_args),
                (\<lparr>isfile = (\<lambda>p. False), DetectorGeometry = (\<lambda>p. Inr 0)\<rparr>,
                 Set_sample_rotation (PBool True))] fresh)"
proof -
  let ?E = "\<lparr>isfile = (\<lambda>p. False), DetectorGeometry = (\<lambda>p. Inr 0)\<rparr>"
  let ?script = "[(?E, Call_init_fields no_args), (?E, Set_sample_rotation (PBool True))]"
  have ne: "PList [PInt 1, PInt 0, PInt 0, PInt 0] \<noteq> PNone" by simp
  have i: "init_fields ?E no_args fresh = (None, snd (init_fields ?E no_args fresh))"
    using init_fields_no_args [of ?E PNone PNone] by (simp add: no_args_def)
  have g: "get_sample_rotation (after ?script fresh) = Inr (PBool True)"
    by (simp add: get_sample_rotation_def set_sample_rotation_def checkAndSetInstance_def)
  show ?thesis
    using rotation_fields_never_settable [OF ne, of ?script] g by simp
qed

text \<open>
  The path the setter was written for: were the slot \<open>sample_rotation\<close> present and true,
  the assignment would warn, clear \<open>uniform_rotation\<close> and store the quaternion.
\<close>

lemma rotation_quaternion_setter_clears_uniform_rotation:
  assumes "attrs s (mangled ''sample_rotation'') = Some (PBool True)"
    and "attrs s (mangled ''uniform_rotation'') = Some u" and "u \<noteq> PNone"
  shows "set_rotation_quaternion (PList q) s =
     (None, store (mangled ''rotation_quaternion'') (PList q)
              (store (mangled ''uniform_rotation'') PNone
                 (warn ('''uniform_rotation' will be overrided by 'rotation_quaternion'' @ [CHR 0x27]) s)))"
  using assms
  by (simp add: set_rotation_quaternion_def load_def ne_True_def ne_None_def
        checkAndSetInstance_def)

section \<open>Construction and the rotation arguments\<close>

text \<open>
  Claim C4 (what the code does instead). The constructor never reads its arguments
  \<open>sample_rotation\<close> and \<open>rotation_quaternion\<close>: whatever they are, the field assignments
  of a construction with no other argument complete without an exception and without a
  warning, no \<open>rotation_quaternion\<close> slot is stored, and the construction as a whole is
  the base class's initializer run on the default fields. For any arguments, changing
  these two changes nothing.
\<close>

theorem construction_ignores_rotation_quaternion:
  "init e super_init (no_args\<lparr>sample_rotation := r, rotation_quaternion := q\<rparr>) fresh =
     super_init [] (snd (init_fields e no_args fresh))
   \<and> fst (init_fields e (no_args\<lparr>sample_rotation := r, rotation_quaternion := q\<rparr>) fresh) = None
   \<and> attrs (snd (init_fields e (no_args\<lparr>sample_rotation := r, rotation_quaternion := q\<rparr>) fresh))
        (mangled ''rotation_quaternion'') = None
   \<and> warned (snd (init_fields e (no_args\<lparr>sample_rotation := r, rotation_quaternion := q\<rparr>) fresh)) = []
   \<and> init_fields e (a\<lparr>sample_rotation := r, rotation_quaternion := q\<rparr>) = init_fields e a"
proof -
  have g: "\<And>a. init_fields e (a\<lparr>sample_rotation := r, rotation_quaternion := q\<rparr>) = init_fields e a"
    by (simp add: init_fields_def split: option.split)
  have k: "kwargs (no_args\<lparr>sample_rotation := r, rotation_quaternion := q\<rparr>) = []"
    by (simp add: no_args_def)
  have d: "init_fields e no_args fresh = (None, snd (init_fields e no_args fresh))"
    using init_fields_no_args [where e = e and r = r and q = q] by (simp add: g)
  have i: "init e super_init (no_args\<lparr>sample_rotation := r, rotation_quaternion := q\<rparr>) fresh =
             super_init [] (snd (init_fields e no_args fresh))"
    unfolding init_def k g
    by (subst block_step [where c = "init_fields e no_args" and s = fresh, OF d])
       (rule block_single)
  show ?thesis
    using i init_fields_no_args [where e = e and r = r and q = q]
    by (simp add: g fresh_def print_def)
qed


section \<open>Path-valued fields\<close>




section \<open>Construction from a legacy mapping\<close>

lemma block_fail: "c s = (Some x, s1) \<Longrightarrow> block (c # cs) s = (Some x, s1)"
  by simp

lemma init_fails_with_fields:
  assumes "fst (init_fields e a s) = Some x"
  shows "fst (init e super_init a s) = Some x"
proof -
  obtain s1 where "init_fields e a s = (Some x, s1)"
    using assms by (cases "init_fields e a s") auto
  then show ?thesis unfolding init_def by (simp del: block.simps add: block_fail)
qed

lemma legacy_after_sample:
  "init_fields e (a\<lparr>parameters_dictionary := Some d\<rparr>) s =
     block [set_item d ''uniform_rotation'' set_uniform_rotation,
            set_item d ''calculate_Compton'' set_calculate_Compton,
            set_item d ''slice_interval'' set_slice_interval,
            set_item d ''number_of_slices'' set_number_of_slices,
            set_item d ''pmi_start_ID'' set_pmi_start_ID,
            set_item d ''pmi_stop_ID'' set_pmi_stop_ID,
            set_item d ''beam_parameters'' (set_beam_parameters e),
            set_item d ''detector_geometry'' (set_detector_geometry e),
            set_item d ''number_of_diffraction_patterns'' set_number_of_diffraction_patterns]
       (store (mangled ''sample'') PNone s)"
  by (simp add: init_fields_def set_sample_def del: block.simps)
     (simp add: set_sample_def)

lemma legacy_missing_Compton:
  assumes "d ''calculate_Compton'' = None"
  shows "fst (init_fields e (a\<lparr>parameters_dictionary := Some d\<rparr>) s) \<noteq> None"
    and "d ''uniform_rotation'' = None \<Longrightarrow>
         fst (init_fields e (a\<lparr>parameters_dictionary := Some d\<rparr>) s) = Some (KeyError ''uniform_rotation'')"
    and "d ''uniform_rotation'' = Some PNone \<Longrightarrow>
         fst (init_fields e (a\<lparr>parameters_dictionary := Some d\<rparr>) s) = Some (KeyError ''calculate_Compton'')"
proof -
  let ?s1 = "store (mangled ''sample'') PNone s"
  let ?u = "set_item d ''uniform_rotation'' set_uniform_rotation ?s1"
  show "fst (init_fields e (a\<lparr>parameters_dictionary := Some d\<rparr>) s) \<noteq> None"
  proof (cases ?u)
    case (Pair r s2)
    show ?thesis
    proof (cases r)
      case None
      then show ?thesis using Pair assms
        by (simp add: legacy_after_sample set_item_def)
    next
      case (Some x)
      then show ?thesis using Pair by (simp add: legacy_after_sample)
    qed
  qed
  show "fst (init_fields e (a\<lparr>parameters_dictionary := Some d\<rparr>) s) = Some (KeyError ''uniform_rotation'')"
    if "d ''uniform_rotation'' = None"
    using that by (simp add: legacy_after_sample set_item_def)
  show "fst (init_fields e (a\<lparr>parameters_dictionary := Some d\<rparr>) s) = Some (KeyError ''calculate_Compton'')"
    if "d ''uniform_rotation'' = Some PNone"
    using that assms by (simp add: legacy_after_sample set_item_def set_uniform_rotation_def)
qed

lemma legacy_is_keyword:
  assumes "d ''uniform_rotation'' = Some ur" "d ''calculate_Compton'' = Some cc"
    "d ''slice_interval'' = Some si" "d ''number_of_slices'' = Some ns"
    "d ''pmi_start_ID'' = Some ps" "d ''pmi_stop_ID'' = Some pe"
    "d ''beam_parameters'' = Some bp" "d ''detector_geometry'' = Some dg"
    "d ''number_of_diffraction_patterns'' = Some nd"
  shows "init_fields e (a\<lparr>parameters_dictionary := Some d\<rparr>) =
         init_fields e (a\<lparr>parameters_dictionary := None, sample := PNone,
           uniform_rotation := ur, calculate_Compton := cc, slice_interval := si,
           number_of_slices := ns, pmi_start_ID := ps, pmi_stop_ID := pe,
           beam_parameters := bp, detector_geometry := dg,
           number_of_diffraction_patterns := nd\<rparr>)"
proof -
  have "\<And>k v f. d k = Some v \<Longrightarrow> set_item d k f = f v"
    by (rule ext) (simp add: set_item_def)
  then show ?thesis using assms by (simp add: init_fields_def del: block.simps)
qed

text \<open>
  Claim C5 as the code has it. A legacy mapping without \<open>calculate_Compton\<close> never
  constructs; the exception is the \<open>KeyError\<close> of the first missing key when the
  mapping has no \<open>uniform_rotation\<close> entry or has \<open>None\<close> there (the entry
  \<open>uniform_rotation\<close> is looked up and assigned before \<open>calculate_Compton\<close> is looked
  up). With the nine keys present, construction from the mapping is construction from
  keywords with the same nine values and \<open>sample\<close> left at \<open>None\<close>: the same exception
  or the same object; any other entry of the mapping is ignored.
\<close>

theorem legacy_mapping_construction:
  "(d ''calculate_Compton'' = None \<longrightarrow>
      fst (init e super_init (a\<lparr>parameters_dictionary := Some d\<rparr>) s) \<noteq> None
      \<and> (d ''uniform_rotation'' = None \<longrightarrow>
           fst (init e super_init (a\<lparr>parameters_dictionary := Some d\<rparr>) s)
             = Some (KeyError ''uniform_rotation''))
      \<and> (d ''uniform_rotation'' = Some PNone \<longrightarrow>
           fst (init e super_init (a\<lparr>parameters_dictionary := Some d\<rparr>) s)
             = Some (KeyError ''calculate_Compton'')))
   \<and> (d ''uniform_rotation'' = Some ur \<and> d ''calculate_Compton'' = Some cc
        \<and> d ''slice_interval'' = Some si \<and> d ''number_of_slices'' = Some ns
        \<and> d ''pmi_start_ID'' = Some ps \<and> d ''pmi_stop_ID'' = Some pe
        \<and> d ''beam_parameters'' = Some bp \<and> d ''detector_geometry'' = Some dg
        \<and> d ''number_of_diffraction_patterns'' = Some nd \<longrightarrow>
      init e super_init (a\<lparr>parameters_dictionary := Some d\<rparr>) s =
      init e super_init (a\<lparr>parameters_dictionary := None, sample := PNone,
           uniform_rotation := ur, calculate_Compton := cc, slice_interval := si,
           number_of_slices := ns, pmi_start_ID := ps, pmi_stop_ID := pe,
           beam_parameters := bp, detector_geometry := dg,
           number_of_diffraction_patterns := nd\<rparr>) s)"
proof (intro conjI impI)
  assume m: "d ''calculate_Compton'' = None"
  obtain x where x: "fst (init_fields e (a\<lparr>parameters_dictionary := Some d\<rparr>) s) = Some x"
    using legacy_missing_Compton(1) [where d = d and e = e and a = a and s = s] m by auto
  show "fst (init e super_init (a\<lparr>parameters_dictionary := Some d\<rparr>) s) \<noteq> None"
    using init_fails_with_fields [OF x, of super_init] by simp
  show "fst (init e super_init (a\<lparr>parameters_dictionary := Some d\<rparr>) s) = Some (KeyError ''uniform_rotation'')"
    if "d ''uniform_rotation'' = None"
    using init_fails_with_fields [OF legacy_missing_Compton(2) [where d = d, OF m that]] .
  show "fst (init e super_init (a\<lparr>parameters_dictionary := Some d\<rparr>) s) = Some (KeyError ''calculate_Compton'')"
    if "d ''uniform_rotation'' = Some PNone"
    using init_fails_with_fields [OF legacy_missing_Compton(3) [where d = d, OF m that]] .
next
  assume h: "d ''uniform_rotation'' = Some ur \<and> d ''calculate_Compton'' = Some cc
        \<and> d ''slice_interval'' = Some si \<and> d ''number_of_slices'' = Some ns
        \<and> d ''pmi_start_ID'' = Some ps \<and> d ''pmi_stop_ID'' = Some pe
        \<and> d ''beam_parameters'' = Some bp \<and> d ''detector_geometry'' = Some dg
        \<and> d ''number_of_diffraction_patterns'' = Some nd"
  have "init_fields e (a\<lparr>parameters_dictionary := Some d\<rparr>) =
         init_fields e (a\<lparr>parameters_dictionary := None, sample := PNone,
           uniform_rotation := ur, calculate_Compton := cc, slice_interval := si,
           number_of_slices := ns, pmi_start_ID := ps, pmi_stop_ID := pe,
           beam_parameters := bp, detector_geometry := dg,
           number_of_diffraction_patterns := nd\<rparr>)"
    using h by (intro legacy_is_keyword) simp_all
  then show "init e super_init (a\<lparr>parameters_dictionary := Some d\<rparr>) s =
      init e super_init (a\<lparr>parameters_dictionary := None, sample := PNone,
           uniform_rotation := ur, calculate_Compton := cc, slice_interval := si,
           number_of_slices := ns, pmi_start_ID := ps, pmi_stop_ID := pe,
           beam_parameters := bp, detector_geometry := dg,
           number_of_diffraction_patterns := nd\<rparr>) s"
    by (simp add: init_def del: block.simps)
qed

text \<open>
  Claim C5 as stated fails: a mapping without \<open>calculate_Compton\<close> whose
  \<open>uniform_rotation\<close> entry is \<open>True\<close> fails in the assignment of \<open>uniform_rotation\<close>,
  before the missing key is looked up, so the failure is not a missing-key condition.
\<close>

theorem legacy_mapping_not_always_key_error:
  "map_of [(''uniform_rotation'', PBool True),
            (''slice_interval'', PInt 100), (''number_of_slices'', PInt 1),
            (''pmi_start_ID'', PInt 1), (''pmi_stop_ID'', PInt 1),
            (''beam_parameters'', PNone), (''detector_geometry'', PNone),
            (''number_of_diffraction_patterns'', PInt 1)] ''calculate_Compton'' = None
   \<and> fst (init \<lparr>isfile = (\<lambda>p. False), DetectorGeometry = (\<lambda>p. Inr 0)\<rparr> (\<lambda>kw. setDefaults)
          (no_args\<lparr>parameters_dictionary := Some (map_of [(''uniform_rotation'', PBool True),
            (''slice_interval'', PInt 100), (''number_of_slices'', PInt 1),
            (''pmi_start_ID'', PInt 1), (''pmi_stop_ID'', PInt 1),
            (''beam_parameters'', PNone), (''detector_geometry'', PNone),
            (''number_of_diffraction_patterns'', PInt 1)])\<rparr>) fresh)
       = Some (AttributeError (mangled ''sample_rotation''))"
  by (simp add: init_def init_fields_def set_item_def set_sample_def set_uniform_rotation_def
        load_def fresh_def)

text \<open>
  C5 on two mappings with the default values: one without \<open>calculate_Compton\<close>, one
  complete.
\<close>

theorem legacy_mapping_construction_witness:
  "map_of [(''uniform_rotation'', PNone),
            (''slice_interval'', PInt 100), (''number_of_slices'', PInt 1),
            (''pmi_start_ID'', PInt 1), (''pmi_stop_ID'', PInt 1),
            (''beam_parameters'', PNone), (''detector_geometry'', PNone),
            (''number_of_diffraction_patterns'', PInt 1)] ''calculate_Compton'' = None
   \<and> map_of [(''uniform_rotation'', PNone),
            (''slice_interval'', PInt 100), (''number_of_slices'', PInt 1),
            (''pmi_start_ID'', PInt 1), (''pmi_stop_ID'', PInt 1),
            (''beam_parameters'', PNone), (''detector_geometry'', PNone),
            (''number_of_diffraction_patterns'', PInt 1)] ''uniform_rotation'' = Some PNone
   \<and> fst (init \<lparr>isfile = (\<lambda>p. False), DetectorGeometry = (\<lambda>p. Inr 0)\<rparr> (\<lambda>kw. setDefaults)
          (no_args\<lparr>parameters_dictionary := Some (map_of [(''uniform_rotation'', PNone),
            (''slice_interval'', PInt 100), (''number_of_slices'', PInt 1),
            (''pmi_start_ID'', PInt 1), (''pmi_stop_ID'', PInt 1),
            (''beam_parameters'', PNone), (''detector_geometry'', PNone),
            (''number_of_diffraction_patterns'', PInt 1)])\<rparr>) fresh)
       = Some (KeyError ''calculate_Compton'')
   \<and> init \<lparr>isfile = (\<lambda>p. False), DetectorGeometry = (\<lambda>p. Inr 0)\<rparr> (\<lambda>kw. setDefaults)
          (no_args\<lparr>parameters_dictionary := Some (map_of [(''uniform_rotation'', PNone), (''calculate_Compton'', PBool True),
            (''slice_interval'', PInt 100), (''number_of_slices'', PInt 1),
            (''pmi_start_ID'', PInt 1), (''pmi_stop_ID'', PInt 1),
            (''beam_parameters'', PNone), (''detector_geometry'', PNone),
            (''number_of_diffraction_patterns'', PInt 1)])\<rparr>) fresh
       = init \<lparr>isfile = (\<lambda>p. False), DetectorGeometry = (\<lambda>p. Inr 0)\<rparr> (\<lambda>kw. setDefaults)
          (no_args\<lparr>parameters_dictionary := None, sample := PNone,
           uniform_rotation := PNone, calculate_Compton := PBool True,
           slice_interval := PInt 100, number_of_slices := PInt 1, pmi_start_ID := PInt 1,
           pmi_stop_ID := PInt 1, beam_parameters := PNone, detector_geometry := PNone,
           number_of_diffraction_patterns := PInt 1\<rparr>) fresh"
  using legacy_mapping_construction
          [where d = "map_of [(''uniform_rotation'', PNone),
            (''slice_interval'', PInt 100), (''number_of_slices'', PInt 1),
            (''pmi_start_ID'', PInt 1), (''pmi_stop_ID'', PInt 1),
            (''beam_parameters'', PNone), (''detector_geometry'', PNone),
            (''number_of_diffraction_patterns'', PInt 1)]"
             and e = "\<lparr>isfile = (\<lambda>p. False), DetectorGeometry = (\<lambda>p. Inr 0)\<rparr>" and super_init = "\<lambda>kw. setDefaults" and a = no_args and s = fresh]
        legacy_mapping_construction
          [where d = "map_of [(''uniform_rotation'', PNone), (''calculate_Compton'', PBool True),
            (''slice_interval'', PInt 100), (''number_of_slices'', PInt 1),
            (''pmi_start_ID'', PInt 1), (''pmi_stop_ID'', PInt 1),
            (''beam_parameters'', PNone), (''detector_geometry'', PNone),
            (''number_of_diffraction_patterns'', PInt 1)]"
             and e = "\<lparr>isfile = (\<lambda>p. False), DetectorGeometry = (\<lambda>p. Inr 0)\<rparr>" and super_init = "\<lambda>kw. setDefaults" and a = no_args and s = fresh
             and ur = PNone and cc = "PBool True" and si = "PInt 100" and ns = "PInt 1"
             and ps = "PInt 1" and pe = "PInt 1" and bp = PNone and dg = PNone and nd = "PInt 1"]
  by simp

section \<open>Version numbers as directory names\<close>

lemma digit_cases: "d < 10 \<Longrightarrow> d \<in> {0, 1, 2, 3, 4, 5, 6, 7, 8, 9::nat}"
  by auto

lemma digit_of_digit_char: "d < 10 \<Longrightarrow> digit_of (digit_char d) = Some d"
  by (drule digit_cases) (auto simp: digit_of_def digit_char_def digits_def)

lemma digit_char_in: "d < 10 \<Longrightarrow> digit_char d \<in> set ''0123456789''"
  by (drule digit_cases) (auto simp: digit_char_def digits_def)

lemma parse_digits_snoc:
  "parse_digits acc (xs @ [c]) =
     (case parse_digits acc xs of
        None \<Rightarrow> None
      | Some m \<Rightarrow> (case digit_of c of None \<Rightarrow> None | Some d \<Rightarrow> Some (10 * m + d)))"
  by (induction xs arbitrary: acc) (auto split: option.splits)

lemma show_nat_unfold:
  "show_nat n = (if n < 10 then [digit_char n] else show_nat (n div 10) @ [digit_char (n mod 10)])"
  by (rule show_nat.simps)

declare show_nat.simps [simp del]

lemma show_nat_not_empty: "show_nat n \<noteq> []"
  by (subst show_nat_unfold) simp

lemma parse_show_nat: "parse_digits 0 (show_nat n) = Some n"
proof (induction n rule: show_nat.induct)
  case (1 n)
  show ?case
  proof (cases "n < 10")
    case True
    then show ?thesis
      by (subst show_nat_unfold) (simp add: digit_of_digit_char)
  next
    case False
    then have "parse_digits 0 (show_nat (n div 10)) = Some (n div 10)" using 1 by simp
    then show ?thesis using False
      by (subst show_nat_unfold) (simp add: parse_digits_snoc digit_of_digit_char)
  qed
qed

lemma parse_positive_show_nat: "0 < n \<Longrightarrow> parse_positive (show_nat n) = Some n"
  by (simp add: parse_positive_def show_nat_not_empty parse_show_nat)

lemma show_nat_inj: "show_nat m = show_nat n \<Longrightarrow> m = n"
  by (metis parse_show_nat option.inject)

lemma show_nat_has_digit: "\<exists>c \<in> set (show_nat n). c \<in> set ''0123456789''"
proof (cases "n < 10")
  case True
  have s: "show_nat n = [digit_char n]" using True by (subst show_nat_unfold) simp
  have "digit_char n \<in> set (show_nat n)" by (simp add: s)
  then show ?thesis using digit_char_in [OF True] by blast
next
  case False
  have s: "show_nat n = show_nat (n div 10) @ [digit_char (n mod 10)]"
    using False by (subst show_nat_unfold) simp
  have m: "digit_char (n mod 10) \<in> set ''0123456789''" by (rule digit_char_in) simp
  have "digit_char (n mod 10) \<in> set (show_nat n)" by (simp add: s)
  then show ?thesis using m by blast
qed

lemma snapshot_name_not_input:
  "''parameters.json'' \<noteq> name @ show_nat n @ rest"
proof
  assume eq: "''parameters.json'' = name @ show_nat n @ rest"
  obtain c where c: "c \<in> set (show_nat n)" "c \<in> set ''0123456789''"
    using show_nat_has_digit by blast
  then have "c \<in> set (name @ show_nat n @ rest)" by simp
  then have "c \<in> set ''parameters.json''" using eq by simp
  then show False using c(2) by auto
qed


section \<open>The versioning engine\<close>

lemma fold_max_start: "fold max xs (a::nat) = max a (fold max xs 0)"
proof (induction xs arbitrary: a)
  case Nil
  show ?case by simp
next
  case (Cons x xs)
  show ?case using Cons [of "max x a"] Cons [of "max x 0"] by simp
qed

lemma show_1: "show_nat 1 = ''1''" and show_2: "show_nat 2 = ''2''" and show_3: "show_nat 3 = ''3''"
  by (simp_all add: show_nat_unfold digit_char_def digits_def)


lemma show_Suc_0: "show_nat (Suc 0) = ''1''"
  using show_1 by simp

lemma show_Suc_Suc_0: "show_nat (Suc (Suc 0)) = ''2''"
  using show_2 by (simp add: numeral_2_eq_2)

lemma show_Suc_Suc_Suc_0: "show_nat (Suc (Suc (Suc 0))) = ''3''"
  using show_3 by (simp add: numeral_3_eq_3)

lemmas show_small = show_1 show_2 show_3 show_Suc_0 show_Suc_Suc_0 show_Suc_Suc_Suc_0

lemmas engine_eval = construct_def version_entries_def ensure_dir_def next_version_def existing_versions_def
  subdirs_def List.map_filter_def parse_positive_def digit_of_def digits_def Let_def

lemma first_run:
  "construct (\<lambda>p. ''dat'') test_parameters [''Simulations''] ''HPLF-Fe'' [([''Simulations''], Dir)]
   = Inr (\<lparr>version = 1, snapshot_file = [''Simulations'', ''HPLF-Fe'', ''1'', ''parameters.json''],
            input_files = [[''Simulations'', ''HPLF-Fe'', ''1'', ''HPLF-Fe1.dat''],
                           [''Simulations'', ''HPLF-Fe'', ''1'', ''HPLF-Fe1_intensite_impulsion.dat'']]\<rparr>,
          version_entries [''Simulations''] ''HPLF-Fe'' ''dat'' 1 test_parameters
          @ [([''Simulations'', ''HPLF-Fe''], Dir), ([''Simulations''], Dir)])"
  by (simp add: engine_eval show_small)

lemma second_run:
  "construct (\<lambda>p. ''dat'') test_parameters [''Simulations''] ''HPLF-Fe''
     (version_entries [''Simulations''] ''HPLF-Fe'' ''dat'' 1 test_parameters
      @ [([''Simulations'', ''HPLF-Fe''], Dir), ([''Simulations''], Dir)])
   = Inr (\<lparr>version = 2, snapshot_file = [''Simulations'', ''HPLF-Fe'', ''2'', ''parameters.json''],
            input_files = [[''Simulations'', ''HPLF-Fe'', ''2'', ''HPLF-Fe2.dat''],
                           [''Simulations'', ''HPLF-Fe'', ''2'', ''HPLF-Fe2_intensite_impulsion.dat'']]\<rparr>,
          version_entries [''Simulations''] ''HPLF-Fe'' ''dat'' 2 test_parameters
          @ version_entries [''Simulations''] ''HPLF-Fe'' ''dat'' 1 test_parameters
          @ [([''Simulations'', ''HPLF-Fe''], Dir), ([''Simulations''], Dir)])"
  by (simp add: engine_eval show_small)

lemma butlast_self: "butlast p = p \<Longrightarrow> p = []"
  by (cases p rule: rev_cases) auto

lemma ensure_dir_result:
  assumes "ensure_dir p fs = Inr fs1"
  shows "map_of fs1 p = Some Dir"
    and "fs1 = fs \<or> (fs1 = (p, Dir) # fs \<and> map_of fs p = None)"
  using assms by (auto simp: ensure_dir_def split: option.splits node.splits)

lemma subdirs_ensure_dir:
  assumes "ensure_dir (wroot @ [name]) fs = Inr fs1"
  shows "subdirs fs1 (wroot @ [name]) = subdirs fs (wroot @ [name])"
proof -
  let ?b = "wroot @ [name]"
  from ensure_dir_result(2) [OF assms]
  show ?thesis
  proof
    assume "fs1 = fs"
    then show ?thesis by simp
  next
    assume h: "fs1 = (?b, Dir) # fs \<and> map_of fs ?b = None"
    then have notin: "?b \<notin> set (map fst fs)" by (simp add: map_of_eq_None_iff)
    have nb: "butlast ?b \<noteq> ?b" using butlast_self [of ?b] by auto
    have "filter (\<lambda>p. p \<noteq> [] \<and> butlast p = ?b \<and> map_of ((?b, Dir) # fs) p = Some Dir) (map fst fs)
        = filter (\<lambda>p. p \<noteq> [] \<and> butlast p = ?b \<and> map_of fs p = Some Dir) (map fst fs)"
      using notin by (intro filter_cong) auto
    then show ?thesis using h nb by (simp add: subdirs_def)
  qed
qed

lemma subdirs_new_version:
  assumes none: "map_of fs1 (wroot @ [name, show_nat v]) = None"
  shows "subdirs (version_entries wroot name ext v p @ fs1) (wroot @ [name])
         = show_nat v # subdirs fs1 (wroot @ [name])"
proof -
  let ?base = "wroot @ [name]"
  let ?n = "show_nat v"
  let ?new = "version_entries wroot name ext v p @ fs1"
  have vd: "wroot @ [name, ?n] = ?base @ [?n]" by simp
  have notin: "?base @ [?n] \<notin> set (map fst fs1)"
    using none unfolding vd by (simp add: map_of_eq_None_iff)
  have bl: "\<And>m. butlast (?base @ [?n, m]) = ?base @ [?n]"
    by (simp add: butlast_append)
  have look: "\<And>q. butlast q = ?base \<Longrightarrow> q \<in> set (map fst fs1) \<Longrightarrow> map_of ?new q = map_of fs1 q"
  proof -
    fix q assume q: "butlast q = ?base" "q \<in> set (map fst fs1)"
    have "q \<noteq> ?base @ [?n]" using q(2) notin by blast
    moreover have "\<And>m. q \<noteq> ?base @ [?n, m]"
    proof
      fix m assume "q = ?base @ [?n, m]"
      then have "butlast q = ?base @ [?n]" using bl by simp
      then show False using q(1) by simp
    qed
    ultimately show "map_of ?new q = map_of fs1 q"
      by (simp add: version_entries_def del: map_of_append)
  qed
  have same: "filter (\<lambda>q. q \<noteq> [] \<and> butlast q = ?base \<and> map_of ?new q = Some Dir) (map fst fs1)
        = filter (\<lambda>q. q \<noteq> [] \<and> butlast q = ?base \<and> map_of fs1 q = Some Dir) (map fst fs1)"
  proof (rule filter_cong [OF refl])
    fix q assume "q \<in> set (map fst fs1)"
    then show "(q \<noteq> [] \<and> butlast q = ?base \<and> map_of ?new q = Some Dir)
             = (q \<noteq> [] \<and> butlast q = ?base \<and> map_of fs1 q = Some Dir)"
      using look [of q] by (cases "butlast q = ?base") (simp_all del: map_of_append)
  qed
  show ?thesis
    unfolding subdirs_def using same
    by (simp add: version_entries_def butlast_append del: map_of_append)
qed

lemma construct_result:
  assumes "construct ext_of p wroot name fs = Inr (ev, fs')"
  obtains fs1 where "ensure_dir (wroot @ [name]) fs = Inr fs1"
    and "map_of fs1 (wroot @ [name, show_nat (version ev)]) = None"
    and "version ev = next_version fs1 (wroot @ [name])"
    and "snapshot_file ev = wroot @ [name, show_nat (version ev), ''parameters.json'']"
    and "input_files ev =
           [wroot @ [name, show_nat (version ev), name @ show_nat (version ev) @ ''.'' @ ext_of p],
            wroot @ [name, show_nat (version ev),
               name @ show_nat (version ev) @ ''_intensite_impulsion.'' @ ext_of p]]"
    and "fs' = version_entries wroot name (ext_of p) (version ev) p @ fs1"
  using assms
  by (auto simp: construct_def Let_def split: sum.splits option.splits)

lemma construct_version:
  assumes "construct ext_of p wroot name fs = Inr (ev, fs')"
  shows "version ev = fold max (existing_versions fs (wroot @ [name])) 0 + 1"
proof -
  from assms obtain fs1 where e: "ensure_dir (wroot @ [name]) fs = Inr fs1"
    and v: "version ev = next_version fs1 (wroot @ [name])"
    by (rule construct_result)
  show ?thesis
    using v subdirs_ensure_dir [OF e] by (simp add: next_version_def existing_versions_def)
qed

lemma version_entries_lookup:
  "map_of (version_entries wroot name ext v p @ fs1) (wroot @ [name, show_nat v]) = Some Dir"
  "map_of (version_entries wroot name ext v p @ fs1)
     (wroot @ [name, show_nat v, ''parameters.json'']) = Some (SnapshotFile p)"
  "map_of (version_entries wroot name ext v p @ fs1)
     (wroot @ [name, show_nat v, name @ show_nat v @ ''.'' @ ext]) = Some InputFile"
  "map_of (version_entries wroot name ext v p @ fs1)
     (wroot @ [name, show_nat v, name @ show_nat v @ ''_intensite_impulsion.'' @ ext])
     = Some InputFile"
  using snapshot_name_not_input [of name v "''.'' @ ext"]
        snapshot_name_not_input [of name v "''_intensite_impulsion.'' @ ext"]
  by (simp_all add: version_entries_def del: map_of_append)

lemma version_entries_keep_base:
  "map_of (version_entries wroot name ext v p @ fs1) (wroot @ [name]) = map_of fs1 (wroot @ [name])"
  by (simp add: version_entries_def del: map_of_append)

lemma construct_next_version:
  assumes "construct ext_of p wroot name fs = Inr (ev, fs')"
  shows "next_version fs' (wroot @ [name]) = version ev + 1"
    and "ensure_dir (wroot @ [name]) fs' = Inr fs'"
proof -
  from assms obtain fs1 where e: "ensure_dir (wroot @ [name]) fs = Inr fs1"
    and n: "map_of fs1 (wroot @ [name, show_nat (version ev)]) = None"
    and v: "version ev = next_version fs1 (wroot @ [name])"
    and f: "fs' = version_entries wroot name (ext_of p) (version ev) p @ fs1"
    by (rule construct_result)
  have pos: "0 < version ev" using v by (simp add: next_version_def)
  have m: "fold max (existing_versions fs1 (wroot @ [name])) 0 < version ev"
    using v by (simp add: next_version_def)
  have "existing_versions fs' (wroot @ [name])
          = version ev # existing_versions fs1 (wroot @ [name])"
    unfolding f existing_versions_def subdirs_new_version [OF n]
    by (simp add: List.map_filter_simps parse_positive_show_nat [OF pos])
  then have "fold max (existing_versions fs' (wroot @ [name])) 0 = version ev"
    using m fold_max_start [of "existing_versions fs1 (wroot @ [name])" "version ev"]
    by simp
  then show "next_version fs' (wroot @ [name]) = version ev + 1"
    by (simp add: next_version_def)
  have "map_of fs' (wroot @ [name]) = Some Dir"
    unfolding f version_entries_keep_base using ensure_dir_result(1) [OF e] .
  then show "ensure_dir (wroot @ [name]) fs' = Inr fs'"
    by (simp add: ensure_dir_def)
qed

lemma construct_again:
  assumes a: "construct ext_of p wroot name fs = Inr (ev, fs')"
    and b: "construct ext_of' p' wroot name fs' = Inr (ev2, fs2)"
  shows "version ev2 = version ev + 1"
proof -
  from b obtain fs1 where e: "ensure_dir (wroot @ [name]) fs' = Inr fs1"
    and v: "version ev2 = next_version fs1 (wroot @ [name])"
    by (rule construct_result)
  have "fs1 = fs'" using e construct_next_version(2) [OF a] by simp
  then show ?thesis using v construct_next_version(1) [OF a] by simp
qed

lemma construct_contents:
  assumes "construct ext_of p wroot name fs = Inr (ev, fs')"
  shows "map_of fs' (wroot @ [name, show_nat (version ev)]) = Some Dir"
    and "map_of fs' (snapshot_file ev) = Some (SnapshotFile p)"
    and "\<forall>f \<in> set (input_files ev). map_of fs' f = Some InputFile"
    and "snapshot_file ev = wroot @ [name, show_nat (version ev), ''parameters.json'']"
    and "input_files ev =
           [wroot @ [name, show_nat (version ev), name @ show_nat (version ev) @ ''.'' @ ext_of p],
            wroot @ [name, show_nat (version ev),
               name @ show_nat (version ev) @ ''_intensite_impulsion.'' @ ext_of p]]"
proof -
  from assms obtain fs1 where
        s: "snapshot_file ev = wroot @ [name, show_nat (version ev), ''parameters.json'']"
    and i: "input_files ev =
           [wroot @ [name, show_nat (version ev), name @ show_nat (version ev) @ ''.'' @ ext_of p],
            wroot @ [name, show_nat (version ev),
               name @ show_nat (version ev) @ ''_intensite_impulsion.'' @ ext_of p]]"
    and f: "fs' = version_entries wroot name (ext_of p) (version ev) p @ fs1"
    by (rule construct_result)
  show "map_of fs' (wroot @ [name, show_nat (version ev)]) = Some Dir"
    unfolding f by (rule version_entries_lookup)
  show "map_of fs' (snapshot_file ev) = Some (SnapshotFile p)"
    unfolding f s by (rule version_entries_lookup)
  show "\<forall>f \<in> set (input_files ev). map_of fs' f = Some InputFile"
    unfolding f i using version_entries_lookup(3,4) [of wroot name "ext_of p" "version ev" p fs1]
    by (simp del: map_of_append)
  show "snapshot_file ev = wroot @ [name, show_nat (version ev), ''parameters.json'']" by (rule s)
  show "input_files ev =
           [wroot @ [name, show_nat (version ev), name @ show_nat (version ev) @ ''.'' @ ext_of p],
            wroot @ [name, show_nat (version ev),
               name @ show_nat (version ev) @ ''_intensite_impulsion.'' @ ext_of p]]" by (rule i)
qed

lemma butlast_shorter: "butlast w \<noteq> w @ [n]"
proof
  assume "butlast w = w @ [n]"
  then have "length (butlast w) = length (w @ [n])" by simp
  then show False by simp
qed

lemma construct_empty:
  "construct ext_of p wroot name [(wroot, Dir)] =
     Inr (\<lparr>version = 1,
           snapshot_file = wroot @ [name, ''1'', ''parameters.json''],
           input_files = [wroot @ [name, ''1'', name @ ''1'' @ ''.'' @ ext_of p],
                          wroot @ [name, ''1'', name @ ''1'' @ ''_intensite_impulsion.'' @ ext_of p]]\<rparr>,
          version_entries wroot name (ext_of p) 1 p @ [(wroot @ [name], Dir), (wroot, Dir)])"
  by (simp add: construct_def ensure_dir_def next_version_def existing_versions_def subdirs_def
        List.map_filter_simps Let_def show_small butlast_append butlast_shorter)

lemma version_entries_other:
  assumes "v \<noteq> v'"
  shows "map_of (version_entries wroot name ext v p @ fs) (wroot @ [name, show_nat v', x])
         = map_of fs (wroot @ [name, show_nat v', x])"
  using assms show_nat_inj [of v v'] by (auto simp add: version_entries_def simp del: map_of_append)

text \<open>
  Claim C2. A construction that completes allocates one plus the largest positive integer
  that names an immediate subdirectory of the experiment's directory (1 when there is
  none); afterwards the version directory exists and holds the primary input file, the
  companion file and the snapshot of the parameters; the next number to allocate is one
  more, so a repeated call that completes yields the following version. On a workspace
  that holds nothing the call completes with version 1.
\<close>

theorem construct_allocates_next_version:
  "(construct ext_of p wroot name fs = Inr (ev, fs') \<longrightarrow>
      version ev = fold max (existing_versions fs (wroot @ [name])) 0 + 1
      \<and> (existing_versions fs (wroot @ [name]) = [] \<longrightarrow> version ev = 1)
      \<and> map_of fs' (wroot @ [name, show_nat (version ev)]) = Some Dir
      \<and> map_of fs' (wroot @ [name, show_nat (version ev),
                              name @ show_nat (version ev) @ ''.'' @ ext_of p]) = Some InputFile
      \<and> map_of fs' (wroot @ [name, show_nat (version ev),
                              name @ show_nat (version ev) @ ''_intensite_impulsion.'' @ ext_of p])
            = Some InputFile
      \<and> map_of fs' (wroot @ [name, show_nat (version ev), ''parameters.json''])
            = Some (SnapshotFile p)
      \<and> next_version fs' (wroot @ [name]) = version ev + 1
      \<and> (construct ext_of p wroot name fs' = Inr (ev2, fs2) \<longrightarrow> version ev2 = version ev + 1))
   \<and> construct ext_of p wroot name [(wroot, Dir)] =
       Inr (\<lparr>version = 1,
             snapshot_file = wroot @ [name, ''1'', ''parameters.json''],
             input_files = [wroot @ [name, ''1'', name @ ''1'' @ ''.'' @ ext_of p],
                            wroot @ [name, ''1'', name @ ''1'' @ ''_intensite_impulsion.'' @ ext_of p]]\<rparr>,
            version_entries wroot name (ext_of p) 1 p @ [(wroot @ [name], Dir), (wroot, Dir)])"
proof (intro conjI impI)
  assume a: "construct ext_of p wroot name fs = Inr (ev, fs')"
  show v: "version ev = fold max (existing_versions fs (wroot @ [name])) 0 + 1"
    by (rule construct_version [OF a])
  show "version ev = 1" if "existing_versions fs (wroot @ [name]) = []"
    using v that by simp
  show "map_of fs' (wroot @ [name, show_nat (version ev)]) = Some Dir"
    by (rule construct_contents(1) [OF a])
  show "map_of fs' (wroot @ [name, show_nat (version ev),
                              name @ show_nat (version ev) @ ''.'' @ ext_of p]) = Some InputFile"
    using construct_contents(3,5) [OF a] by simp
  show "map_of fs' (wroot @ [name, show_nat (version ev),
                      name @ show_nat (version ev) @ ''_intensite_impulsion.'' @ ext_of p])
            = Some InputFile"
    using construct_contents(3,5) [OF a] by simp
  show "map_of fs' (wroot @ [name, show_nat (version ev), ''parameters.json''])
            = Some (SnapshotFile p)"
    using construct_contents(2,4) [OF a] by simp
  show "next_version fs' (wroot @ [name]) = version ev + 1"
    by (rule construct_next_version(1) [OF a])
  show "version ev2 = version ev + 1" if "construct ext_of p wroot name fs' = Inr (ev2, fs2)"
    by (rule construct_again [OF a that])
next
  show "construct ext_of p wroot name [(wroot, Dir)] =
       Inr (\<lparr>version = 1,
             snapshot_file = wroot @ [name, ''1'', ''parameters.json''],
             input_files = [wroot @ [name, ''1'', name @ ''1'' @ ''.'' @ ext_of p],
                            wroot @ [name, ''1'', name @ ''1'' @ ''_intensite_impulsion.'' @ ext_of p]]\<rparr>,
            version_entries wroot name (ext_of p) 1 p @ [(wroot @ [name], Dir), (wroot, Dir)])"
    by (rule construct_empty)
qed

lemma update_lookup:
  "map_of (AList.update k v al) k = Some v"
  "k' \<noteq> k \<Longrightarrow> map_of (AList.update k v al) k' = map_of al k'"
  by (simp_all add: update_conv')

text \<open>
  Claim C1. After a construction that yielded some version (version 2 in the test), the
  read-from-snapshot initializer pointed at that version's directory with one keyword
  override gives the persisted parameters with that field replaced; a further construction
  with them that completes yields the following version, whose snapshot has the override
  under the field's internal name and agrees with the earlier snapshot, which is still in
  place, on every other field.
\<close>

theorem read_from_snapshot_override:
  "construct ext_of p2 wroot name fs0 = Inr (ev2, fs2) \<longrightarrow>
     read_from_file fs2 (wroot @ [name, show_nat (version ev2)]) [(field, v)]
       = Inr (AList.update (internal_name field) v p2)
     \<and> (construct ext_of (AList.update (internal_name field) v p2) wroot name fs2 = Inr (ev3, fs3)
         \<longrightarrow> version ev3 = version ev2 + 1
           \<and> map_of fs3 (snapshot_file ev2) = Some (SnapshotFile p2)
           \<and> (\<exists>snap3. map_of fs3 (snapshot_file ev3) = Some (SnapshotFile snap3)
                \<and> map_of snap3 (internal_name field) = Some v
                \<and> (\<forall>k. k \<noteq> internal_name field \<longrightarrow> map_of snap3 k = map_of p2 k)))"
proof (intro impI conjI)
  assume a: "construct ext_of p2 wroot name fs0 = Inr (ev2, fs2)"
  have s2: "map_of fs2 (wroot @ [name, show_nat (version ev2), ''parameters.json''])
              = Some (SnapshotFile p2)"
    using construct_contents(2,4) [OF a] by simp
  show "read_from_file fs2 (wroot @ [name, show_nat (version ev2)]) [(field, v)]
       = Inr (AList.update (internal_name field) v p2)"
    using s2 by (simp add: read_from_file_def)
  let ?p3 = "AList.update (internal_name field) v p2"
  assume b: "construct ext_of ?p3 wroot name fs2 = Inr (ev3, fs3)"
  show v3: "version ev3 = version ev2 + 1" by (rule construct_again [OF a b])
  from b obtain fs1 where e: "ensure_dir (wroot @ [name]) fs2 = Inr fs1"
    and f: "fs3 = version_entries wroot name (ext_of ?p3) (version ev3) ?p3 @ fs1"
    by (rule construct_result)
  have "fs1 = fs2" using e construct_next_version(2) [OF a] by simp
  then have "map_of fs3 (wroot @ [name, show_nat (version ev2), ''parameters.json''])
        = Some (SnapshotFile p2)"
    unfolding f using s2 v3
    by (simp add: version_entries_other del: map_of_append)
  then show "map_of fs3 (snapshot_file ev2) = Some (SnapshotFile p2)"
    using construct_contents(4) [OF a] by simp
  show "\<exists>snap3. map_of fs3 (snapshot_file ev3) = Some (SnapshotFile snap3)
                \<and> map_of snap3 (internal_name field) = Some v
                \<and> (\<forall>k. k \<noteq> internal_name field \<longrightarrow> map_of snap3 k = map_of p2 k)"
    using construct_contents(2) [OF b] by (intro exI [of _ ?p3]) (simp add: update_lookup)
qed


section \<open>The test workflow\<close>

text \<open>
  The three constructions of the test, run on a workspace that is empty at the start.
\<close>

lemma third_run:
  "construct (\<lambda>p. ''dat'') (AList.update (internal_name ''sample_thickness'') (PFloat 4) test_parameters) [''Simulations''] ''HPLF-Fe''
     (version_entries [''Simulations''] ''HPLF-Fe'' ''dat'' 2 test_parameters
      @ version_entries [''Simulations''] ''HPLF-Fe'' ''dat'' 1 test_parameters
      @ [([''Simulations'', ''HPLF-Fe''], Dir), ([''Simulations''], Dir)])
   = Inr (\<lparr>version = 3, snapshot_file = [''Simulations'', ''HPLF-Fe'', ''3'', ''parameters.json''],
            input_files = [[''Simulations'', ''HPLF-Fe'', ''3'', ''HPLF-Fe3.dat''],
                           [''Simulations'', ''HPLF-Fe'', ''3'', ''HPLF-Fe3_intensite_impulsion.dat'']]\<rparr>,
          (version_entries [''Simulations''] ''HPLF-Fe'' ''dat'' 3 (AList.update (internal_name ''sample_thickness'') (PFloat 4) test_parameters)
      @ version_entries [''Simulations''] ''HPLF-Fe'' ''dat'' 2 test_parameters
      @ version_entries [''Simulations''] ''HPLF-Fe'' ''dat'' 1 test_parameters
      @ [([''Simulations'', ''HPLF-Fe''], Dir), ([''Simulations''], Dir)]))"
  by (simp add: engine_eval show_small)

lemma read_version_2:
  "read_from_file (version_entries [''Simulations''] ''HPLF-Fe'' ''dat'' 2 test_parameters
      @ version_entries [''Simulations''] ''HPLF-Fe'' ''dat'' 1 test_parameters
      @ [([''Simulations'', ''HPLF-Fe''], Dir), ([''Simulations''], Dir)]) [''Simulations'', ''HPLF-Fe'', ''2''] [(''sample_thickness'', PFloat 4)]
   = Inr (AList.update (internal_name ''sample_thickness'') (PFloat 4) test_parameters)"
  by (simp add: read_from_file_def version_entries_def show_small)

lemma testComplexWorkflow_result:
  "testComplexWorkflow (\<lambda>p. ''dat'') [([''Simulations''], Dir)]
   = Inr ([\<lparr>version = 1, snapshot_file = [''Simulations'', ''HPLF-Fe'', ''1'', ''parameters.json''],
            input_files = [[''Simulations'', ''HPLF-Fe'', ''1'', ''HPLF-Fe1.dat''],
                           [''Simulations'', ''HPLF-Fe'', ''1'', ''HPLF-Fe1_intensite_impulsion.dat'']]\<rparr>,
           \<lparr>version = 2, snapshot_file = [''Simulations'', ''HPLF-Fe'', ''2'', ''parameters.json''],
            input_files = [[''Simulations'', ''HPLF-Fe'', ''2'', ''HPLF-Fe2.dat''],
                           [''Simulations'', ''HPLF-Fe'', ''2'', ''HPLF-Fe2_intensite_impulsion.dat'']]\<rparr>,
           \<lparr>version = 3, snapshot_file = [''Simulations'', ''HPLF-Fe'', ''3'', ''parameters.json''],
            input_files = [[''Simulations'', ''HPLF-Fe'', ''3'', ''HPLF-Fe3.dat''],
                           [''Simulations'', ''HPLF-Fe'', ''3'', ''HPLF-Fe3_intensite_impulsion.dat'']]\<rparr>],
          (version_entries [''Simulations''] ''HPLF-Fe'' ''dat'' 3 (AList.update (internal_name ''sample_thickness'') (PFloat 4) test_parameters)
      @ version_entries [''Simulations''] ''HPLF-Fe'' ''dat'' 2 test_parameters
      @ version_entries [''Simulations''] ''HPLF-Fe'' ''dat'' 1 test_parameters
      @ [([''Simulations'', ''HPLF-Fe''], Dir), ([''Simulations''], Dir)]))"
  unfolding testComplexWorkflow_def
  by (simp only: first_run second_run third_run read_version_2 sum.case prod.case)

text \<open>
  C2 on the test: the empty workspace, name \<open>HPLF-Fe\<close>, twice the same call.
\<close>

theorem construct_allocates_next_version_witness:
  "\<exists>ev1 fs1 ev2 fs2.
     construct (\<lambda>p. ''dat'') test_parameters [''Simulations''] ''HPLF-Fe'' [([''Simulations''], Dir)] = Inr (ev1, fs1)
     \<and> existing_versions [([''Simulations''], Dir)] [''Simulations'', ''HPLF-Fe''] = []
     \<and> version ev1 = 1
     \<and> map_of fs1 [''Simulations'', ''HPLF-Fe'', ''1''] = Some Dir
     \<and> map_of fs1 [''Simulations'', ''HPLF-Fe'', ''1'', ''HPLF-Fe1.dat''] = Some InputFile
     \<and> map_of fs1 [''Simulations'', ''HPLF-Fe'', ''1'', ''HPLF-Fe1_intensite_impulsion.dat'']
           = Some InputFile
     \<and> map_of fs1 [''Simulations'', ''HPLF-Fe'', ''1'', ''parameters.json'']
           = Some (SnapshotFile test_parameters)
     \<and> construct (\<lambda>p. ''dat'') test_parameters [''Simulations''] ''HPLF-Fe'' fs1 = Inr (ev2, fs2)
     \<and> version ev2 = 2"
proof -
  let ?ev1 = "\<lparr>version = 1, snapshot_file = [''Simulations'', ''HPLF-Fe'', ''1'', ''parameters.json''],
            input_files = [[''Simulations'', ''HPLF-Fe'', ''1'', ''HPLF-Fe1.dat''],
                           [''Simulations'', ''HPLF-Fe'', ''1'', ''HPLF-Fe1_intensite_impulsion.dat'']]\<rparr>"
  let ?fs1 = "(version_entries [''Simulations''] ''HPLF-Fe'' ''dat'' 1 test_parameters
      @ [([''Simulations'', ''HPLF-Fe''], Dir), ([''Simulations''], Dir)])"
  let ?ev2 = "\<lparr>version = 2, snapshot_file = [''Simulations'', ''HPLF-Fe'', ''2'', ''parameters.json''],
            input_files = [[''Simulations'', ''HPLF-Fe'', ''2'', ''HPLF-Fe2.dat''],
                           [''Simulations'', ''HPLF-Fe'', ''2'', ''HPLF-Fe2_intensite_impulsion.dat'']]\<rparr>"
  let ?fs2 = "(version_entries [''Simulations''] ''HPLF-Fe'' ''dat'' 2 test_parameters
      @ version_entries [''Simulations''] ''HPLF-Fe'' ''dat'' 1 test_parameters
      @ [([''Simulations'', ''HPLF-Fe''], Dir), ([''Simulations''], Dir)])"
  have r1: "construct (\<lambda>p. ''dat'') test_parameters [''Simulations''] ''HPLF-Fe'' [([''Simulations''], Dir)] = Inr (?ev1, ?fs1)"
    by (rule first_run)
  have r2: "construct (\<lambda>p. ''dat'') test_parameters [''Simulations''] ''HPLF-Fe'' ?fs1 = Inr (?ev2, ?fs2)"
    by (rule second_run)
  have e: "existing_versions [([''Simulations''], Dir)] [''Simulations'', ''HPLF-Fe''] = []"
    by (simp add: existing_versions_def subdirs_def List.map_filter_simps)
  have v1: "version ?ev1 = 1" by simp
  note t = construct_allocates_next_version
             [where ext_of = "(\<lambda>p. ''dat'')" and p = test_parameters and wroot = "[''Simulations'']"
                and name = "''HPLF-Fe''" and fs = "[([''Simulations''], Dir)]" and ev = ?ev1 and fs' = ?fs1
                and ?ev2.0 = ?ev2 and ?fs2.0 = ?fs2]
  have c: "map_of ?fs1 [''Simulations'', ''HPLF-Fe'', ''1''] = Some Dir
     \<and> map_of ?fs1 [''Simulations'', ''HPLF-Fe'', ''1'', ''HPLF-Fe1.dat''] = Some InputFile
     \<and> map_of ?fs1 [''Simulations'', ''HPLF-Fe'', ''1'', ''HPLF-Fe1_intensite_impulsion.dat'']
           = Some InputFile
     \<and> map_of ?fs1 [''Simulations'', ''HPLF-Fe'', ''1'', ''parameters.json'']
           = Some (SnapshotFile test_parameters)
     \<and> version ?ev2 = version ?ev1 + 1"
    using t r1 r2 by (simp add: show_small del: map_of_append)
  show ?thesis
    apply (rule exI [of _ ?ev1], rule exI [of _ ?fs1], rule exI [of _ ?ev2], rule exI [of _ ?fs2])
    using r1 r2 e c by simp
qed

text \<open>
  C1 on the test: version 2 read back with \<open>sample_thickness=4.0\<close>, then version 3.
\<close>

theorem read_from_snapshot_override_witness:
  "\<exists>ev2 fs2 new_parameters ev3 fs3 snap3.
     construct (\<lambda>p. ''dat'') test_parameters [''Simulations''] ''HPLF-Fe'' (version_entries [''Simulations''] ''HPLF-Fe'' ''dat'' 1 test_parameters
      @ [([''Simulations'', ''HPLF-Fe''], Dir), ([''Simulations''], Dir)]) = Inr (ev2, fs2)
     \<and> version ev2 = 2
     \<and> read_from_file fs2 [''Simulations'', ''HPLF-Fe'', ''2''] [(''sample_thickness'', PFloat 4)]
           = Inr new_parameters
     \<and> construct (\<lambda>p. ''dat'') new_parameters [''Simulations''] ''HPLF-Fe'' fs2 = Inr (ev3, fs3)
     \<and> version ev3 = 3
     \<and> map_of fs3 [''Simulations'', ''HPLF-Fe'', ''2'', ''parameters.json'']
           = Some (SnapshotFile test_parameters)
     \<and> map_of fs3 [''Simulations'', ''HPLF-Fe'', ''3'', ''parameters.json'']
           = Some (SnapshotFile snap3)
     \<and> map_of snap3 (internal_name ''sample_thickness'') = Some (PFloat 4)
     \<and> map_of test_parameters (internal_name ''sample_thickness'') = Some (PFloat 5)
     \<and> (\<forall>k. k \<noteq> internal_name ''sample_thickness''
              \<longrightarrow> map_of snap3 k = map_of test_parameters k)"
proof -
  let ?fs1 = "(version_entries [''Simulations''] ''HPLF-Fe'' ''dat'' 1 test_parameters
      @ [([''Simulations'', ''HPLF-Fe''], Dir), ([''Simulations''], Dir)])"
  let ?ev2 = "\<lparr>version = 2, snapshot_file = [''Simulations'', ''HPLF-Fe'', ''2'', ''parameters.json''],
            input_files = [[''Simulations'', ''HPLF-Fe'', ''2'', ''HPLF-Fe2.dat''],
                           [''Simulations'', ''HPLF-Fe'', ''2'', ''HPLF-Fe2_intensite_impulsion.dat'']]\<rparr>"
  let ?fs2 = "(version_entries [''Simulations''] ''HPLF-Fe'' ''dat'' 2 test_parameters
      @ version_entries [''Simulations''] ''HPLF-Fe'' ''dat'' 1 test_parameters
      @ [([''Simulations'', ''HPLF-Fe''], Dir), ([''Simulations''], Dir)])"
  let ?np = "(AList.update (internal_name ''sample_thickness'') (PFloat 4) test_parameters)"
  let ?ev3 = "\<lparr>version = 3, snapshot_file = [''Simulations'', ''HPLF-Fe'', ''3'', ''parameters.json''],
            input_files = [[''Simulations'', ''HPLF-Fe'', ''3'', ''HPLF-Fe3.dat''],
                           [''Simulations'', ''HPLF-Fe'', ''3'', ''HPLF-Fe3_intensite_impulsion.dat'']]\<rparr>"
  let ?fs3 = "(version_entries [''Simulations''] ''HPLF-Fe'' ''dat'' 3 (AList.update (internal_name ''sample_thickness'') (PFloat 4) test_parameters)
      @ version_entries [''Simulations''] ''HPLF-Fe'' ''dat'' 2 test_parameters
      @ version_entries [''Simulations''] ''HPLF-Fe'' ''dat'' 1 test_parameters
      @ [([''Simulations'', ''HPLF-Fe''], Dir), ([''Simulations''], Dir)])"
  have r2: "construct (\<lambda>p. ''dat'') test_parameters [''Simulations''] ''HPLF-Fe'' ?fs1 = Inr (?ev2, ?fs2)"
    by (rule second_run)
  have r3: "construct (\<lambda>p. ''dat'') ?np [''Simulations''] ''HPLF-Fe'' ?fs2 = Inr (?ev3, ?fs3)"
    by (rule third_run)
  note t = read_from_snapshot_override
             [where ext_of = "(\<lambda>p. ''dat'')" and ?p2.0 = test_parameters and wroot = "[''Simulations'']"
                and name = "''HPLF-Fe''" and ?fs0.0 = ?fs1 and ?ev2.0 = ?ev2 and ?fs2.0 = ?fs2
                and field = "''sample_thickness''" and v = "PFloat 4"
                and ?ev3.0 = ?ev3 and ?fs3.0 = ?fs3]
  have rd: "read_from_file ?fs2 [''Simulations'', ''HPLF-Fe'', ''2''] [(''sample_thickness'', PFloat 4)]
           = Inr ?np"
    using t r2 by (simp add: show_small del: map_of_append)
  have c: "map_of ?fs3 [''Simulations'', ''HPLF-Fe'', ''2'', ''parameters.json'']
             = Some (SnapshotFile test_parameters)
     \<and> (\<exists>snap3. map_of ?fs3 [''Simulations'', ''HPLF-Fe'', ''3'', ''parameters.json'']
             = Some (SnapshotFile snap3)
           \<and> map_of snap3 (internal_name ''sample_thickness'') = Some (PFloat 4)
           \<and> (\<forall>k. k \<noteq> internal_name ''sample_thickness''
              \<longrightarrow> map_of snap3 k = map_of test_parameters k))"
    using t r2 r3 by (simp add: show_small del: map_of_append)
  then obtain snap3 where s3:
      "map_of ?fs3 [''Simulations'', ''HPLF-Fe'', ''3'', ''parameters.json'']
             = Some (SnapshotFile snap3)"
      "map_of snap3 (internal_name ''sample_thickness'') = Some (PFloat 4)"
      "\<forall>k. k \<noteq> internal_name ''sample_thickness''
              \<longrightarrow> map_of snap3 k = map_of test_parameters k"
    by blast
  have old: "map_of test_parameters (internal_name ''sample_thickness'') = Some (PFloat 5)"
    by (simp add: test_parameters_def internal_name_def)
  show ?thesis
    apply (rule exI [of _ ?ev2], rule exI [of _ ?fs2], rule exI [of _ ?np],
           rule exI [of _ ?ev3], rule exI [of _ ?fs3], rule exI [of _ snap3])
    using r2 r3 rd c s3 old by (simp del: map_of_append)
qed

end
